theory Spec2Isabelle
  imports Complex_Main "HOL-Library.Word" "HOL-Library.Multiset" "HOL-Library.Monad_Syntax"
begin

unbundle bit_operations_syntax

section \<open>Data model (types.ts, constants.ts)\<close>

text \<open>
  JavaScript numbers are modelled by \<open>real\<close>. The one place of the mastering assistant where
  a finite input produces a non-finite number is \<open>Math.log10\<close> of a gated RMS that is zero or
  negative; there the numbers are \<open>jsnum\<close> values, with the IEEE rules of the operators the
  source applies to them written out.
\<close>

record EQBand =
  frequency :: real
  gain :: real

record CompressorSettings =
  threshold :: real
  ratio :: real
  attack :: real
  release :: real

record ReverbSettings =
  mix :: real
  decay :: real

record MasteringSettings =
  masterGain :: real
  eq :: "EQBand list"
  compressor :: CompressorSettings
  reverb :: ReverbSettings
  saturation :: real
  air :: real
  body :: real
  stereoWidth :: real
  ceiling_db :: real
  stereoBass :: real
  dynamicBass :: real
  softClip :: real

record AnalysisResult =
  rms :: real
  crestFactor :: real
  spectralFlux :: real
  musicalKey :: string
  musicalScale :: string
  bpm :: real
  spectralBalance :: "real list"
  lowEnergy :: real
  midEnergy :: real

datatype ExportFormat = WAV_16 | WAV_24 | WAV_32

definition DEFAULT_EQ_FREQUENCIES :: "real list" where
  "DEFAULT_EQ_FREQUENCIES =
     [30, 60, 120, 240, 500, 1000, 2000, 4000, 8000, 12000, 16000, 20000, 26000, 32000]"

definition DEFAULT_SETTINGS :: MasteringSettings where
  "DEFAULT_SETTINGS =
     \<lparr> masterGain = 0,
       eq = map (\<lambda>f. \<lparr> frequency = f, gain = 0 \<rparr>) DEFAULT_EQ_FREQUENCIES,
       compressor = \<lparr> threshold = 0, ratio = 0, attack = 0, release = 0 \<rparr>,
       reverb = \<lparr> mix = 0, decay = 2.0 \<rparr>,
       saturation = 0, air = 0, body = 0, stereoWidth = 0, ceiling_db = 0,
       stereoBass = 0, dynamicBass = 0, softClip = 0 \<rparr>"

definition ANALYZER_FFT_SIZE :: nat where
  "ANALYZER_FFT_SIZE = 4096"

definition SMOOTHING_TIME_CONSTANT :: real where
  "SMOOTHING_TIME_CONSTANT = 0.85"

section \<open>JavaScript numbers that may be non-finite\<close>

datatype jsnum = Num real | PosInf | NegInf | NaN

text \<open>\<open>Math.log10\<close> on a finite argument.\<close>

definition Math_log10 :: "real \<Rightarrow> jsnum" where
  "Math_log10 x = (if 0 < x then Num (log 10 x) else if x = 0 then NegInf else NaN)"

text \<open>Multiplication by a finite positive constant, as in \<open>20 * Math.log10(..)\<close>.\<close>

fun js_scale :: "real \<Rightarrow> jsnum \<Rightarrow> jsnum" where
  "js_scale c (Num x) = Num (c * x)"
| "js_scale c PosInf = (if 0 < c then PosInf else if c < 0 then NegInf else NaN)"
| "js_scale c NegInf = (if 0 < c then NegInf else if c < 0 then PosInf else NaN)"
| "js_scale c NaN = NaN"

fun js_add :: "jsnum \<Rightarrow> jsnum \<Rightarrow> jsnum" where
  "js_add (Num x) (Num y) = Num (x + y)"
| "js_add NaN _ = NaN"
| "js_add _ NaN = NaN"
| "js_add PosInf NegInf = NaN"
| "js_add NegInf PosInf = NaN"
| "js_add PosInf _ = PosInf"
| "js_add _ PosInf = PosInf"
| "js_add NegInf _ = NegInf"
| "js_add _ NegInf = NegInf"

fun js_neg :: "jsnum \<Rightarrow> jsnum" where
  "js_neg (Num x) = Num (- x)"
| "js_neg PosInf = NegInf"
| "js_neg NegInf = PosInf"
| "js_neg NaN = NaN"

definition js_sub :: "jsnum \<Rightarrow> jsnum \<Rightarrow> jsnum" where
  "js_sub a b = js_add a (js_neg b)"

text \<open>The comparison \<open>a < b\<close>: false as soon as one side is \<open>NaN\<close>.\<close>

fun js_lt :: "jsnum \<Rightarrow> jsnum \<Rightarrow> bool" where
  "js_lt (Num x) (Num y) = (x < y)"
| "js_lt NaN _ = False"
| "js_lt _ NaN = False"
| "js_lt NegInf NegInf = False"
| "js_lt NegInf _ = True"
| "js_lt _ NegInf = False"
| "js_lt PosInf _ = False"
| "js_lt _ PosInf = True"

definition js_gt :: "jsnum \<Rightarrow> jsnum \<Rightarrow> bool" where
  "js_gt a b = js_lt b a"

text \<open>\<open>Math.min\<close> and \<open>Math.max\<close> return \<open>NaN\<close> as soon as one argument is \<open>NaN\<close>.\<close>

fun Math_min :: "jsnum \<Rightarrow> jsnum \<Rightarrow> jsnum" where
  "Math_min NaN _ = NaN"
| "Math_min _ NaN = NaN"
| "Math_min a b = (if js_lt b a then b else a)"

fun Math_max :: "jsnum \<Rightarrow> jsnum \<Rightarrow> jsnum" where
  "Math_max NaN _ = NaN"
| "Math_max _ NaN = NaN"
| "Math_max a b = (if js_lt a b then b else a)"

text \<open>\<open>Math.pow(10, y)\<close>.\<close>

fun Math_pow10 :: "jsnum \<Rightarrow> jsnum" where
  "Math_pow10 (Num y) = Num (10 powr y)"
| "Math_pow10 PosInf = PosInf"
| "Math_pow10 NegInf = Num 0"
| "Math_pow10 NaN = NaN"

text \<open>
  \<open>parseFloat(x.toFixed(d))\<close>: the decimal with \<open>d\<close> fraction digits nearest to \<open>x\<close>, a tie
  going away from zero.
\<close>

definition toFixed :: "nat \<Rightarrow> real \<Rightarrow> real" where
  "toFixed d x = sgn x * real_of_int \<lfloor>\<bar>x\<bar> * 10 ^ d + 1 / 2\<rfloor> / 10 ^ d"

fun js_toFixed :: "nat \<Rightarrow> jsnum \<Rightarrow> jsnum" where
  "js_toFixed d (Num x) = Num (toFixed d x)"
| "js_toFixed d v = v"

text \<open>
  The value stored into a numeric settings field. Every number the assistant stores is
  finite (\<open>stored_numbers_finite\<close> below), so the last equation is never used.
\<close>

fun number_value :: "jsnum \<Rightarrow> real" where
  "number_value (Num x) = x"
| "number_value _ = 0"

text \<open>Reading \<open>xs[i]\<close>: \<open>None\<close> is JavaScript's \<open>undefined\<close> past the end of the array.\<close>

definition array_get :: "'a list \<Rightarrow> nat \<Rightarrow> 'a option" where
  "array_get xs i = (if i < length xs then Some (xs ! i) else None)"

section \<open>The mastering assistant (generateAiSettings)\<close>

datatype log_line =
    LogAnalysisComplete
  | LogMusicalContext string string real
  | LogSignalPath jsnum real
  | LogEq
  | LogLowEnd
  | LogColor
  | LogDynamics
  | LogLoudnessGain jsnum jsnum
  | LogLoudnessOptimal jsnum

record AiDecisionResult =
  settings :: MasteringSettings
  logs :: "log_line list"

definition clamp :: "real \<Rightarrow> real \<Rightarrow> real \<Rightarrow> real" where
  "clamp val lo hi = min hi (max lo val)"

definition js_clamp :: "jsnum \<Rightarrow> jsnum \<Rightarrow> jsnum \<Rightarrow> jsnum" where
  "js_clamp val lo hi = Math_min hi (Math_max lo val)"

definition estimatedLUFS :: "AnalysisResult \<Rightarrow> jsnum" where
  "estimatedLUFS analysis = js_sub (js_scale 20 (Math_log10 (rms analysis))) (Num 0.6)"

definition targetCurve :: "real list" where
  "targetCurve =
     [0.95, 0.90, 0.85, 0.80, 0.75, 0.70, 0.65, 0.60, 0.55, 0.50, 0.45, 0.40, 0.35, 0.30]"

text \<open>The body of the \<open>forEach\<close> over \<open>settings.eq\<close>, for the band at index \<open>i\<close>.\<close>

definition eq_band_step :: "real list \<Rightarrow> nat \<Rightarrow> EQBand \<Rightarrow> EQBand" where
  "eq_band_step balance i band =
     (case array_get balance i of
        None \<Rightarrow> band
      | Some actual \<Rightarrow>
          let target = (case array_get targetCurve i of
                          None \<Rightarrow> 0.5
                        | Some t \<Rightarrow> if t = 0 then 0.5 else t);
              delta = actual - target;
              g = delta * (- 12.0);
              g' = (if frequency band < 100 then clamp g (- 3) 3
                    else if frequency band > 8000 then clamp g (- 4) 4
                    else clamp g (- 3) 3)
          in band \<lparr> gain := toFixed 1 g' \<rparr>)"

text \<open>
  The indices at which the body of the loop reads \<open>analysis.spectralBalance\<close> for the band
  at index \<open>i\<close>: always in the test \<open>analysis.spectralBalance[i] === undefined\<close>, and once
  more for \<open>actual\<close> when the test finds a value.
\<close>

definition eq_band_reads :: "real list \<Rightarrow> nat \<Rightarrow> nat list" where
  "eq_band_reads balance i =
     (case array_get balance i of None \<Rightarrow> [i] | Some actual \<Rightarrow> [i, i])"

fun eq_forEach_reads :: "real list \<Rightarrow> nat \<Rightarrow> EQBand list \<Rightarrow> nat list" where
  "eq_forEach_reads balance i [] = []"
| "eq_forEach_reads balance i (band # bands) =
     eq_band_reads balance i @ eq_forEach_reads balance (Suc i) bands"

fun eq_forEach :: "real list \<Rightarrow> nat \<Rightarrow> EQBand list \<Rightarrow> EQBand list" where
  "eq_forEach balance i [] = []"
| "eq_forEach balance i (band # bands) =
     eq_band_step balance i band # eq_forEach balance (Suc i) bands"

definition targetLUFS :: "jsnum \<Rightarrow> jsnum" where
  "targetLUFS est =
     (let t0 = Num (- 10.0);
          t1 = (if js_gt est (Num (- 12)) then est else t0);
          t2 = (if js_lt est (Num (- 24)) then Num (- 13.0) else t1)
      in t2)"

definition gainNeeded :: "AnalysisResult \<Rightarrow> jsnum" where
  "gainNeeded analysis =
     js_sub (targetLUFS (estimatedLUFS analysis)) (estimatedLUFS analysis)"

definition generateAiSettings :: "AnalysisResult \<Rightarrow> AiDecisionResult" where
  "generateAiSettings analysis =
     (let s0 = DEFAULT_SETTINGS;
          est = estimatedLUFS analysis;
          dynamicRange = crestFactor analysis;
          flux = spectralFlux analysis;
          l0 = [LogAnalysisComplete,
                LogMusicalContext (musicalKey analysis) (musicalScale analysis) (bpm analysis),
                LogSignalPath est dynamicRange];
          s1 = s0 \<lparr> eq := eq_forEach (spectralBalance analysis) 0 (eq s0) \<rparr>;
          l1 = l0 @ [LogEq];
          s2 = s1 \<lparr> stereoWidth := 0.15 \<rparr>;
          s3 = (if lowEnergy analysis > 0.6 then s2 \<lparr> stereoBass := 2.0 \<rparr> else s2);
          s4 = (if lowEnergy analysis < 0.4 then s3 \<lparr> dynamicBass := 3.0 \<rparr> else s3);
          l4 = (if lowEnergy analysis < 0.4 then l1 @ [LogLowEnd] else l1);
          s5 = (if midEnergy analysis > lowEnergy analysis * 1.5
                then s4 \<lparr> stereoWidth := 0.05 \<rparr> else s4);
          s6 = (if flux < 12 then s5 \<lparr> saturation := 0.04, body := 1.5 \<rparr>
                else s5 \<lparr> saturation := 0.01, body := 0.0 \<rparr>);
          l6 = (if flux < 12 then l4 @ [LogColor] else l4);
          needed = gainNeeded analysis
      in if js_gt needed (Num 0.5) then
           let linearGainDb = Math_min needed (Num 4.0);
               saturatorGainDb = Math_max (Num 0) (js_sub needed linearGainDb);
               linearRatio = Math_pow10 (js_scale (1 / 20) linearGainDb);
               s7 = s6 \<lparr> masterGain :=
                            number_value (js_clamp (js_sub linearRatio (Num 1.0)) (Num 0.0) (Num 0.8)),
                          ceiling_db := - 0.3 \<rparr>;
               clipBase = js_clamp (js_scale 0.08 saturatorGainDb) (Num 0) (Num 0.4);
               softClipAmount = (if dynamicRange > 4.0 then js_add clipBase (Num 0.1) else clipBase);
               l7 = (if dynamicRange > 4.0 then l6 @ [LogDynamics] else l6);
               s8 = s7 \<lparr> softClip := number_value (js_toFixed 2 softClipAmount) \<rparr>;
               l8 = l7 @ [LogLoudnessGain linearGainDb saturatorGainDb];
               s9 = (if js_gt needed (Num 3)
                     then s8 \<lparr> compressor :=
                                  \<lparr> threshold = - 16, ratio = 2.0, attack = 0.010, release = 0.15 \<rparr> \<rparr>
                     else s8)
           in \<lparr> settings = s9, logs = l8 \<rparr>
         else
           \<lparr> settings = s6 \<lparr> masterGain := 0.0, softClip := 0.05 \<rparr>,
             logs = l6 @ [LogLoudnessOptimal est] \<rparr>)"

text \<open>
  The indices at which one call of \<open>generateAiSettings\<close> reads \<open>analysis.spectralBalance\<close>, in
  the order of the reads: the loop over the 14 bands of the copied defaults is the only place
  that reads the array.
\<close>

definition spectralBalance_reads :: "AnalysisResult \<Rightarrow> nat list" where
  "spectralBalance_reads analysis =
     eq_forEach_reads (spectralBalance analysis) 0 (eq DEFAULT_SETTINGS)"

definition short_analysis :: AnalysisResult where
  "short_analysis =
     \<lparr> rms = 0.1, crestFactor = 3, spectralFlux = 20, musicalKey = ''C'', musicalScale = ''major'',
       bpm = 120, spectralBalance = [1, 0.2, 0.5], lowEnergy = 0.5, midEnergy = 0.5 \<rparr>"

section \<open>WAV export (encodeWAV in App.tsx)\<close>

text \<open>
  The contents of an \<open>AudioBuffer\<close>: \<open>channelData ch i\<close> is the sample of channel \<open>ch\<close> at
  frame \<open>i\<close>. Sample rates are whole numbers of Hz.
\<close>

record AudioBuffer =
  numberOfChannels :: nat
  buffer_length :: nat
  sampleRate :: nat
  channelData :: "nat \<Rightarrow> nat \<Rightarrow> real"

type_synonym byte = "8 word"

text \<open>
  The \<open>DataView\<close> over the output \<open>ArrayBuffer\<close> is a list of bytes; a write stores
  consecutive bytes from an offset on. All writes of \<open>encodeWAV\<close> lie inside the buffer
  (\<open>encodeWAV_length\<close> and \<open>sample_loop_inv\<close> below), so the \<open>RangeError\<close> of an
  out-of-range write does not arise.
\<close>

fun write_bytes :: "byte list \<Rightarrow> nat \<Rightarrow> byte list \<Rightarrow> byte list" where
  "write_bytes view off [] = view"
| "write_bytes view off (b # bs) = write_bytes (view[off := b]) (Suc off) bs"

definition u16_le :: "16 word \<Rightarrow> byte list" where
  "u16_le w = [ucast w, ucast (drop_bit 8 w)]"

definition u32_le :: "32 word \<Rightarrow> byte list" where
  "u32_le w = [ucast w, ucast (drop_bit 8 w), ucast (drop_bit 16 w), ucast (drop_bit 24 w)]"

definition writeString :: "byte list \<Rightarrow> nat \<Rightarrow> string \<Rightarrow> byte list" where
  "writeString view off str = write_bytes view off (map of_char str)"

definition setUint8 :: "byte list \<Rightarrow> nat \<Rightarrow> 32 word \<Rightarrow> byte list" where
  "setUint8 view off v = write_bytes view off [ucast v]"

definition setUint16 :: "byte list \<Rightarrow> nat \<Rightarrow> nat \<Rightarrow> byte list" where
  "setUint16 view off n = write_bytes view off (u16_le (of_nat n))"

definition setUint32 :: "byte list \<Rightarrow> nat \<Rightarrow> nat \<Rightarrow> byte list" where
  "setUint32 view off n = write_bytes view off (u32_le (of_nat n))"

text \<open>The integer part of a number, as \<open>ToInt16\<close> and \<open>ToInt32\<close> take it: towards zero.\<close>

definition js_trunc :: "real \<Rightarrow> int" where
  "js_trunc x = (if x < 0 then \<lceil>x\<rceil> else \<lfloor>x\<rfloor>)"

definition setInt16 :: "byte list \<Rightarrow> nat \<Rightarrow> real \<Rightarrow> byte list" where
  "setInt16 view off x = write_bytes view off (u16_le (of_int (js_trunc x)))"

text \<open>\<open>Math.round\<close>: the nearest integer, a tie going up.\<close>

definition Math_round :: "real \<Rightarrow> int" where
  "Math_round x = \<lfloor>x + 1 / 2\<rfloor>"

text \<open>The operand of \<open>&\<close> and \<open>>>\<close>, converted by \<open>ToInt32\<close>.\<close>

definition ToInt32 :: "int \<Rightarrow> 32 word" where
  "ToInt32 v = of_int v"

definition bitDepth :: "ExportFormat \<Rightarrow> nat" where
  "bitDepth format = (case format of WAV_16 \<Rightarrow> 16 | WAV_24 \<Rightarrow> 24 | WAV_32 \<Rightarrow> 32)"

definition formatTag :: "ExportFormat \<Rightarrow> nat" where
  "formatTag format = (case format of WAV_16 \<Rightarrow> 1 | WAV_24 \<Rightarrow> 1 | WAV_32 \<Rightarrow> 3)"

definition bytesPerSample :: "ExportFormat \<Rightarrow> nat" where
  "bytesPerSample format = bitDepth format div 8"

definition blockAlign :: "AudioBuffer \<Rightarrow> ExportFormat \<Rightarrow> nat" where
  "blockAlign buffer format = numberOfChannels buffer * bytesPerSample format"

definition byteRate :: "AudioBuffer \<Rightarrow> ExportFormat \<Rightarrow> nat" where
  "byteRate buffer format = sampleRate buffer * blockAlign buffer format"

definition dataSize :: "AudioBuffer \<Rightarrow> ExportFormat \<Rightarrow> nat" where
  "dataSize buffer format = buffer_length buffer * blockAlign buffer format"

definition headerSize :: nat where
  "headerSize = 44"

definition totalSize :: "AudioBuffer \<Rightarrow> ExportFormat \<Rightarrow> nat" where
  "totalSize buffer format = headerSize + dataSize buffer format"

definition write_header :: "AudioBuffer \<Rightarrow> ExportFormat \<Rightarrow> byte list \<Rightarrow> byte list" where
  "write_header buffer format view0 =
     (let v1 = writeString view0 0 ''RIFF'';
          v2 = setUint32 v1 4 (36 + dataSize buffer format);
          v3 = writeString v2 8 ''WAVE'';
          v4 = writeString v3 12 ''fmt '';
          v5 = setUint32 v4 16 16;
          v6 = setUint16 v5 20 (formatTag format);
          v7 = setUint16 v6 22 (numberOfChannels buffer);
          v8 = setUint32 v7 24 (sampleRate buffer);
          v9 = setUint32 v8 28 (byteRate buffer format);
          v10 = setUint16 v9 32 (blockAlign buffer format);
          v11 = setUint16 v10 34 (bitDepth format);
          v12 = writeString v11 36 ''data'';
          v13 = setUint32 v12 40 (dataSize buffer format)
      in v13)"

text \<open>
  One sample written at \<open>offset\<close>, and the offset after it. \<open>f32\<close> is the IEEE 754
  single-precision bit pattern of a sample, the encoding \<open>DataView.setFloat32\<close> performs.
\<close>

definition write_sample ::
  "(real \<Rightarrow> 32 word) \<Rightarrow> ExportFormat \<Rightarrow> real \<Rightarrow> byte list \<times> nat \<Rightarrow> byte list \<times> nat" where
  "write_sample f32 format x st =
     (case st of (view, offset) \<Rightarrow>
        (case format of
           WAV_32 \<Rightarrow> (write_bytes view offset (u32_le (f32 x)), offset + 4)
         | WAV_24 \<Rightarrow>
             let s0 = max (- 1) (min 1 x);
                 s = (if s0 < 0 then s0 * 0x800000 else s0 * 0x7FFFFF);
                 val = ToInt32 (Math_round s);
                 va = setUint8 view offset (val AND 0xFF);
                 vb = setUint8 va (offset + 1) (signed_drop_bit 8 val AND 0xFF);
                 vc = setUint8 vb (offset + 2) (signed_drop_bit 16 val AND 0xFF)
             in (vc, offset + 3)
         | WAV_16 \<Rightarrow>
             let s0 = max (- 1) (min 1 x);
                 s = (if s0 < 0 then s0 * 0x8000 else s0 * 0x7FFF)
             in (setInt16 view offset s, offset + 2)))"

text \<open>The inner loop over the channels of frame \<open>i\<close>, and the outer loop over the frames.\<close>

definition channel_loop ::
  "(real \<Rightarrow> 32 word) \<Rightarrow> ExportFormat \<Rightarrow> AudioBuffer \<Rightarrow> nat \<Rightarrow> byte list \<times> nat \<Rightarrow> byte list \<times> nat" where
  "channel_loop f32 format buffer i st =
     fold (\<lambda>ch. write_sample f32 format (channelData buffer ch i)) [0 ..< numberOfChannels buffer] st"

definition sample_loop ::
  "(real \<Rightarrow> 32 word) \<Rightarrow> ExportFormat \<Rightarrow> AudioBuffer \<Rightarrow> byte list \<times> nat \<Rightarrow> byte list \<times> nat" where
  "sample_loop f32 format buffer st =
     fold (channel_loop f32 format buffer) [0 ..< buffer_length buffer] st"

definition encodeWAV :: "(real \<Rightarrow> 32 word) \<Rightarrow> AudioBuffer \<Rightarrow> ExportFormat \<Rightarrow> byte list" where
  "encodeWAV f32 buffer format =
     (let view0 = replicate (totalSize buffer format) 0;
          view = write_header buffer format view0;
          offset = 44
      in fst (sample_loop f32 format buffer (view, offset)))"

text \<open>Reading the file back: a little-endian unsigned 32-bit and a signed 16-bit field.\<close>

definition getUint32 :: "byte list \<Rightarrow> nat \<Rightarrow> nat" where
  "getUint32 view off =
     unat (view ! off) + 256 * unat (view ! (off + 1)) + 65536 * unat (view ! (off + 2))
       + 16777216 * unat (view ! (off + 3))"

definition getInt16 :: "byte list \<Rightarrow> nat \<Rightarrow> int" where
  "getInt16 view off = sint (word_cat (view ! (off + 1)) (view ! off) :: 16 word)"

text \<open>
  Modelled from the spec: the decoder of an exported 16-bit file is not part of the
  repository. The spec gives the scale of the samples, \<open>\<plusminus>1\<close> to \<open>+32767\<close> and \<open>-32768\<close>;
  the decoder divides by the same two constants.
\<close>

definition decodePCM16 :: "int \<Rightarrow> real" where
  "decodePCM16 v = (if v < 0 then real_of_int v / 32768 else real_of_int v / 32767)"

section \<open>The audio engine (class AudioEngine)\<close>

subsection \<open>The host: Web Audio objects, random numbers, object identity\<close>

text \<open>
  The nodes of the Web Audio API are records of their parameters, created with the
  defaults of the API. An \<open>AudioParam\<close> has its current value, its nominal range
  (\<open>minValue\<close>, \<open>maxValue\<close>) and the automation events scheduled on it, each a target, a
  start time and a time constant.
\<close>

datatype BiquadFilterType =
  Lowpass | Highpass | Bandpass | Lowshelf | Highshelf | Peaking | Notch | Allpass

datatype OverSampleType = Oversample_none | Oversample_2x | Oversample_4x

datatype AudioContextState = Suspended | Running | Closed

record AudioParam =
  param_value :: real
  minValue :: real
  maxValue :: real
  scheduled :: "(real \<times> real \<times> real) list"

record BiquadFilterNode =
  filter_type :: BiquadFilterType
  filter_frequency :: AudioParam
  filter_gain :: AudioParam
  filter_Q :: AudioParam

record GainNode =
  gain_param :: AudioParam

record DynamicsCompressorNode =
  comp_threshold :: AudioParam
  comp_knee :: AudioParam
  comp_ratio :: AudioParam
  comp_attack :: AudioParam
  comp_release :: AudioParam

record WaveShaperNode =
  curve :: "real list option"
  oversample :: OverSampleType

record ConvolverNode =
  convolver_buffer :: "AudioBuffer option"

record AnalyserNode =
  fftSize :: nat
  smoothingTimeConstant :: real

record AudioBufferSourceNode =
  source_buffer :: "AudioBuffer option"
  source_started :: "(real \<times> real) option"

record AudioContext =
  context_id :: nat
  context_sampleRate :: nat
  context_state :: AudioContextState
  currentTime :: real

record OfflineAudioContext =
  offline_channels :: nat
  offline_length :: nat
  offline_sampleRate :: nat

text \<open>
  A \<open>BaseAudioContext\<close> is the live \<open>AudioContext\<close> or an \<open>OfflineAudioContext\<close>; the two
  are different classes, so an offline context is never the object held in the engine's
  \<open>audioContext\<close> field.
\<close>

datatype BaseAudioContext = Live AudioContext | Offline OfflineAudioContext

definition base_sampleRate :: "BaseAudioContext \<Rightarrow> nat" where
  "base_sampleRate ctx =
     (case ctx of Live c \<Rightarrow> context_sampleRate c | Offline c \<Rightarrow> offline_sampleRate c)"

definition param :: "real \<Rightarrow> real \<Rightarrow> real \<Rightarrow> AudioParam" where
  "param v lo hi = \<lparr> param_value = v, minValue = lo, maxValue = hi, scheduled = [] \<rparr>"

text \<open>
  The largest single-precision number, \<open>(2 - 2 ^ (-23)) * 2 ^ 127\<close>: a parameter without a
  range of its own has the range of the single-precision numbers.
\<close>

definition most_positive_single_float :: real where
  "most_positive_single_float = (2 ^ 24 - 1) * 2 ^ 104"

definition unbounded_param :: "real \<Rightarrow> AudioParam" where
  "unbounded_param v = param v (- most_positive_single_float) most_positive_single_float"

text \<open>
  The assignment \<open>p.value = v\<close>. A value outside the nominal range of the parameter is
  limited to it: the node holds, and \<open>p.value\<close> then reads, the nearest bound.
\<close>

definition limited :: "real \<Rightarrow> real \<Rightarrow> real \<Rightarrow> real" where
  "limited lo hi v = min hi (max lo v)"

definition set_value :: "real \<Rightarrow> AudioParam \<Rightarrow> AudioParam" where
  "set_value v p = p \<lparr> param_value := limited (minValue p) (maxValue p) v \<rparr>"

definition cancelScheduledValues :: "real \<Rightarrow> AudioParam \<Rightarrow> AudioParam" where
  "cancelScheduledValues t p = p \<lparr> scheduled := filter (\<lambda>ev. fst (snd ev) < t) (scheduled p) \<rparr>"

definition setTargetAtTime :: "real \<Rightarrow> real \<Rightarrow> real \<Rightarrow> AudioParam \<Rightarrow> AudioParam" where
  "setTargetAtTime target t timeConstant p =
     p \<lparr> scheduled := scheduled p @ [(target, t, timeConstant)] \<rparr>"

text \<open>The pair of calls the engine makes for every smoothed parameter.\<close>

definition ramp_to :: "real \<Rightarrow> real \<Rightarrow> AudioParam \<Rightarrow> AudioParam" where
  "ramp_to target now p = setTargetAtTime target now 0.05 (cancelScheduledValues now p)"

text \<open>
  The nodes as the factory methods of a context return them. The frequency of a biquad
  filter ranges from 0 to the Nyquist frequency of the context that creates it, half its
  sample rate; its gain is at most \<open>40 * log10\<close> of the largest single-precision number,
  about 1541 dB.
\<close>

definition biquad_gain_max :: real where
  "biquad_gain_max = 40 * log 10 most_positive_single_float"

definition createBiquadFilter :: "nat \<Rightarrow> BiquadFilterNode" where
  "createBiquadFilter rate =
     \<lparr> filter_type = Lowpass,
       filter_frequency = param 350 0 (real rate / 2),
       filter_gain = param 0 (- most_positive_single_float) biquad_gain_max,
       filter_Q = unbounded_param 1 \<rparr>"

definition createGain :: GainNode where
  "createGain = \<lparr> gain_param = unbounded_param 1 \<rparr>"

definition createDynamicsCompressor :: DynamicsCompressorNode where
  "createDynamicsCompressor =
     \<lparr> comp_threshold = param (- 24) (- 100) 0, comp_knee = param 30 0 40,
       comp_ratio = param 12 1 20, comp_attack = param 0.003 0 1,
       comp_release = param 0.25 0 1 \<rparr>"

definition createWaveShaper :: WaveShaperNode where
  "createWaveShaper = \<lparr> curve = None, oversample = Oversample_none \<rparr>"

definition createConvolver :: ConvolverNode where
  "createConvolver = \<lparr> convolver_buffer = None \<rparr>"

definition createAnalyser :: AnalyserNode where
  "createAnalyser = \<lparr> fftSize = 2048, smoothingTimeConstant = 0.8 \<rparr>"

definition createBufferSource :: AudioBufferSourceNode where
  "createBufferSource = \<lparr> source_buffer = None, source_started = None \<rparr>"

text \<open>
  The state of the host that the engine's calls change: the position in the stream of
  numbers \<open>Math.random\<close> returns, and the counter that gives each new object its identity.
\<close>

record Host =
  random_stream :: "nat \<Rightarrow> real"
  random_pos :: nat
  next_id :: nat

text \<open>
  Where the identity of a buffer object matters (the impulse cache), the object is the pair
  of its identity and its contents.
\<close>

type_synonym AudioBufferRef = "nat \<times> AudioBuffer"

definition Math_random :: "Host \<Rightarrow> real \<times> Host" where
  "Math_random h = (random_stream h (random_pos h), h \<lparr> random_pos := Suc (random_pos h) \<rparr>)"

definition createBuffer :: "nat \<Rightarrow> nat \<Rightarrow> nat \<Rightarrow> Host \<Rightarrow> AudioBufferRef \<times> Host" where
  "createBuffer channels len rate h =
     ((next_id h,
       \<lparr> numberOfChannels = channels, buffer_length = len, sampleRate = rate,
         channelData = (\<lambda>ch i. 0) \<rparr>),
      h \<lparr> next_id := Suc (next_id h) \<rparr>)"

text \<open>
  \<open>Math.pow\<close> on a base in \<open>[0, 1]\<close>, the only bases the impulse envelope has. (For base 0
  and a negative exponent JavaScript yields \<open>Infinity\<close>; the engine passes \<open>reverse = false\<close>
  everywhere, which keeps the base positive.)
\<close>

definition Math_pow :: "real \<Rightarrow> real \<Rightarrow> real" where
  "Math_pow b y = (if y = 0 then 1 else b powr y)"

subsection \<open>Engine state\<close>

record AudioEngine =
  audioContext :: "AudioContext option"
  sourceNode :: "AudioBufferSourceNode option"
  audioBuffer :: "AudioBuffer option"
  gainNode :: "GainNode option"
  compressorNode :: "DynamicsCompressorNode option"
  eqNodes :: "BiquadFilterNode list"
  reverbNode :: "ConvolverNode option"
  reverbToneNode :: "BiquadFilterNode option"
  wetGainNode :: "GainNode option"
  dryGainNode :: "GainNode option"
  analyzerNode :: "AnalyserNode option"
  saturationNode :: "WaveShaperNode option"
  airNode :: "BiquadFilterNode option"
  bodyNode :: "BiquadFilterNode option"
  limiterNode :: "DynamicsCompressorNode option"
  msSideGainNode :: "GainNode option"
  stereoBassNode :: "BiquadFilterNode option"
  dynamicBassNode :: "BiquadFilterNode option"
  softClipNode :: "WaveShaperNode option"
  impulseResponseCache :: "AudioBufferRef option"
  lastDecayValue :: real
  startTime :: real
  pausedAt :: real
  isPlaying :: bool

definition new_AudioEngine :: AudioEngine where
  "new_AudioEngine =
     \<lparr> audioContext = None, sourceNode = None, audioBuffer = None, gainNode = None,
       compressorNode = None, eqNodes = [], reverbNode = None, reverbToneNode = None,
       wetGainNode = None, dryGainNode = None, analyzerNode = None, saturationNode = None,
       airNode = None, bodyNode = None, limiterNode = None, msSideGainNode = None,
       stereoBassNode = None, dynamicBassNode = None, softClipNode = None,
       impulseResponseCache = None, lastDecayValue = - 1, startTime = 0, pausedAt = 0,
       isPlaying = False \<rparr>"

subsection \<open>Curve generators\<close>

text \<open>
  Both tables have 4096 entries. The quotients are JavaScript's for a non-zero divisor,
  which every amount in the documented range (0 to 1) gives.
\<close>

definition makeDistortionCurve :: "real \<Rightarrow> real list" where
  "makeDistortionCurve amount =
     (let n_samples = 4096 :: nat;
          drive = amount * 10.0
      in map (\<lambda>i. let x = (real i * 2) / real n_samples - 1
                  in if drive = 0 then x else (pi + drive) * x / (pi + drive * \<bar>x\<bar>))
           [0 ..< n_samples])"

definition makeSoftClipCurve :: "real \<Rightarrow> real list" where
  "makeSoftClipCurve amount =
     (let n_samples = 4096 :: nat
      in map (\<lambda>i. let x = (real i * 2) / real n_samples - 1
                  in if amount = 0 then x
                     else let k = 1 + amount * 2 in tanh (k * x) / tanh k)
           [0 ..< n_samples])"

subsection \<open>Impulse response synthesis and its cache\<close>

definition same_context :: "BaseAudioContext \<Rightarrow> AudioContext option \<Rightarrow> bool" where
  "same_context ctx live =
     (case ctx of
        Offline c \<Rightarrow> False
      | Live c \<Rightarrow> (case live of None \<Rightarrow> False | Some c' \<Rightarrow> context_id c = context_id c'))"

function impulse_loop ::
  "nat \<Rightarrow> nat \<Rightarrow> real \<Rightarrow> bool \<Rightarrow> (nat \<Rightarrow> real) \<times> (nat \<Rightarrow> real) \<times> Host
     \<Rightarrow> (nat \<Rightarrow> real) \<times> (nat \<Rightarrow> real) \<times> Host" where
  "impulse_loop i len dec reverse (left, right, h) =
     (if i < len then
        let n = (if reverse then len - i else i);
            e = Math_pow (1 - real n / real len) dec;
            (r1, h1) = Math_random h;
            noiseL = r1 * 2 - 1;
            (r2, h2) = Math_random h1;
            noiseR = r2 * 2 - 1
        in impulse_loop (Suc i) len dec reverse (left(i := noiseL * e), right(i := noiseR * e), h2)
      else (left, right, h))"
  by pat_completeness auto
termination
  by (relation "measure (\<lambda>(i, len, dec, reverse, st). len - i)") auto

declare impulse_loop.simps [simp del]

definition synthesize_impulse ::
  "BaseAudioContext \<Rightarrow> nat \<Rightarrow> real \<Rightarrow> bool \<Rightarrow> Host \<Rightarrow> AudioBufferRef \<times> Host" where
  "synthesize_impulse ctx duration dec reverse h =
     (let rate = base_sampleRate ctx;
          len = rate * duration;
          ((ident, impulse), h1) = createBuffer 2 len rate h;
          (left, right, h2) =
             impulse_loop 0 len dec reverse (channelData impulse 0, channelData impulse 1, h1)
      in ((ident, impulse \<lparr> channelData := (channelData impulse)(0 := left, 1 := right) \<rparr>), h2))"

definition cache_hit :: "BaseAudioContext \<Rightarrow> real \<Rightarrow> AudioEngine \<Rightarrow> AudioBufferRef option" where
  "cache_hit ctx dec e =
     (case impulseResponseCache e of
        None \<Rightarrow> None
      | Some cached \<Rightarrow>
          if same_context ctx (audioContext e) \<and> \<bar>lastDecayValue e - dec\<bar> < 0.01
          then Some cached else None)"

definition createImpulseResponse ::
  "BaseAudioContext \<Rightarrow> nat \<Rightarrow> real \<Rightarrow> bool \<Rightarrow> AudioEngine \<times> Host
     \<Rightarrow> AudioBufferRef \<times> AudioEngine \<times> Host" where
  "createImpulseResponse ctx duration dec reverse st =
     (case st of (e, h) \<Rightarrow>
        (case cache_hit ctx dec e of
           Some cached \<Rightarrow> (cached, e, h)
         | None \<Rightarrow>
             let (impulse, h') = synthesize_impulse ctx duration dec reverse h;
                 e' = (if same_context ctx (audioContext e)
                       then e \<lparr> impulseResponseCache := Some impulse, lastDecayValue := dec \<rparr>
                       else e)
             in (impulse, e', h')))"

subsection \<open>Graph construction (setupGraph, updateSettings)\<close>

text \<open>
  \<open>[...settings.eq].sort((a, b) => a.frequency - b.frequency)\<close>: a stable sort of a copy
  by ascending frequency.
\<close>

definition sortedEq :: "MasteringSettings \<Rightarrow> EQBand list" where
  "sortedEq st = sort_key frequency (eq st)"

definition eq_node :: "nat \<Rightarrow> nat \<Rightarrow> nat \<Rightarrow> EQBand \<Rightarrow> BiquadFilterNode" where
  "eq_node rate len index band =
     createBiquadFilter rate
       \<lparr> filter_type := (if index = 0 then Lowshelf
                         else if int index = int len - 1 then Highshelf else Peaking),
         filter_frequency := set_value (frequency band) (filter_frequency (createBiquadFilter rate)),
         filter_gain := set_value (gain band) (filter_gain (createBiquadFilter rate)),
         filter_Q := set_value 1.0 (filter_Q (createBiquadFilter rate)) \<rparr>"

definition make_eqNodes :: "nat \<Rightarrow> MasteringSettings \<Rightarrow> BiquadFilterNode list" where
  "make_eqNodes rate st =
     map (\<lambda>(index, band). eq_node rate (length (sortedEq st)) index band)
       (enumerate 0 (sortedEq st))"

definition update_eq_node :: "MasteringSettings \<Rightarrow> real \<Rightarrow> nat \<times> BiquadFilterNode \<Rightarrow> BiquadFilterNode" where
  "update_eq_node st now p =
     (case p of (index, node) \<Rightarrow>
        (case array_get (sortedEq st) index of
           None \<Rightarrow> node
         | Some band \<Rightarrow> node \<lparr> filter_gain := ramp_to (gain band) now (filter_gain node) \<rparr>))"

text \<open>
  \<open>updateSettings\<close>: each statement of the source touches the node of one field, if that
  node exists; the last one needs both the wet and the dry gain node.
\<close>

definition update_reverb_mix :: "MasteringSettings \<Rightarrow> real \<Rightarrow> AudioEngine \<Rightarrow> AudioEngine" where
  "update_reverb_mix st now e =
     (case wetGainNode e of
        None \<Rightarrow> e
      | Some wet \<Rightarrow>
          (case dryGainNode e of
             None \<Rightarrow> e
           | Some dry \<Rightarrow>
               e \<lparr> wetGainNode :=
                     Some (wet \<lparr> gain_param := ramp_to (mix (reverb st)) now (gain_param wet) \<rparr>),
                   dryGainNode :=
                     Some (dry \<lparr> gain_param := ramp_to (1 - mix (reverb st)) now (gain_param dry) \<rparr>) \<rparr>))"

definition updateSettings :: "MasteringSettings \<Rightarrow> AudioEngine \<Rightarrow> AudioEngine" where
  "updateSettings st e =
     (case audioContext e of
        None \<Rightarrow> e
      | Some ctx \<Rightarrow>
          let now = currentTime ctx
          in update_reverb_mix st now
               (e \<lparr> gainNode := map_option
                       (\<lambda>n. n \<lparr> gain_param := ramp_to (1.0 + masterGain st) now (gain_param n) \<rparr>)
                       (gainNode e),
                     compressorNode := map_option
                       (\<lambda>n. n \<lparr> comp_threshold := ramp_to (threshold (compressor st)) now (comp_threshold n),
                                comp_ratio := ramp_to (max 1 (ratio (compressor st))) now (comp_ratio n),
                                comp_attack := ramp_to (attack (compressor st)) now (comp_attack n),
                                comp_release := ramp_to (release (compressor st)) now (comp_release n) \<rparr>)
                       (compressorNode e),
                     eqNodes := map (update_eq_node st now) (enumerate 0 (eqNodes e)),
                     saturationNode := map_option
                       (\<lambda>n. n \<lparr> curve := Some (makeDistortionCurve (saturation st)) \<rparr>)
                       (saturationNode e),
                     softClipNode := map_option
                       (\<lambda>n. n \<lparr> curve := Some (makeSoftClipCurve (softClip st)) \<rparr>)
                       (softClipNode e),
                     airNode := map_option
                       (\<lambda>n. n \<lparr> filter_gain := ramp_to (air st) now (filter_gain n) \<rparr>) (airNode e),
                     bodyNode := map_option
                       (\<lambda>n. n \<lparr> filter_gain := ramp_to (body st) now (filter_gain n) \<rparr>) (bodyNode e),
                     dynamicBassNode := map_option
                       (\<lambda>n. n \<lparr> filter_gain := ramp_to (dynamicBass st) now (filter_gain n) \<rparr>)
                       (dynamicBassNode e),
                     limiterNode := map_option
                       (\<lambda>n. n \<lparr> comp_threshold := ramp_to (ceiling_db st) now (comp_threshold n) \<rparr>)
                       (limiterNode e),
                     msSideGainNode := map_option
                       (\<lambda>n. n \<lparr> gain_param := ramp_to (1.0 + stereoWidth st) now (gain_param n) \<rparr>)
                       (msSideGainNode e),
                     stereoBassNode := map_option
                       (\<lambda>n. n \<lparr> filter_gain := ramp_to (stereoBass st) now (filter_gain n) \<rparr>)
                       (stereoBassNode e) \<rparr>))"

text \<open>
  The fixed filters of the chain, as both \<open>setupGraph\<close> and \<open>renderOffline\<close> configure them;
  \<open>rate\<close> is the sample rate of the context that creates the filter.
\<close>

definition make_airNode :: "nat \<Rightarrow> MasteringSettings \<Rightarrow> BiquadFilterNode" where
  "make_airNode rate st =
     createBiquadFilter rate
       \<lparr> filter_type := Highshelf,
         filter_frequency := set_value 12000 (filter_frequency (createBiquadFilter rate)),
         filter_gain := set_value (air st) (filter_gain (createBiquadFilter rate)) \<rparr>"

definition make_bodyNode :: "nat \<Rightarrow> MasteringSettings \<Rightarrow> BiquadFilterNode" where
  "make_bodyNode rate st =
     createBiquadFilter rate
       \<lparr> filter_type := Peaking,
         filter_frequency := set_value 300 (filter_frequency (createBiquadFilter rate)),
         filter_gain := set_value (body st) (filter_gain (createBiquadFilter rate)),
         filter_Q := set_value 0.7 (filter_Q (createBiquadFilter rate)) \<rparr>"

definition make_dynamicBassNode :: "nat \<Rightarrow> MasteringSettings \<Rightarrow> BiquadFilterNode" where
  "make_dynamicBassNode rate st =
     createBiquadFilter rate
       \<lparr> filter_type := Peaking,
         filter_frequency := set_value 65 (filter_frequency (createBiquadFilter rate)),
         filter_gain := set_value (dynamicBass st) (filter_gain (createBiquadFilter rate)),
         filter_Q := set_value 1.2 (filter_Q (createBiquadFilter rate)) \<rparr>"

definition make_stereoBassNode :: "nat \<Rightarrow> MasteringSettings \<Rightarrow> BiquadFilterNode" where
  "make_stereoBassNode rate st =
     createBiquadFilter rate
       \<lparr> filter_type := Lowshelf,
         filter_frequency := set_value 120 (filter_frequency (createBiquadFilter rate)),
         filter_gain := set_value (stereoBass st) (filter_gain (createBiquadFilter rate)) \<rparr>"

definition make_reverbToneNode :: "nat \<Rightarrow> BiquadFilterNode" where
  "make_reverbToneNode rate =
     createBiquadFilter rate
       \<lparr> filter_type := Lowpass,
         filter_frequency := set_value 5000 (filter_frequency (createBiquadFilter rate)) \<rparr>"

definition make_msSideGain :: "MasteringSettings \<Rightarrow> GainNode" where
  "make_msSideGain st =
     createGain \<lparr> gain_param := set_value (1.0 + stereoWidth st) (gain_param createGain) \<rparr>"

definition gain_of :: "real \<Rightarrow> GainNode" where
  "gain_of v = createGain \<lparr> gain_param := set_value v (gain_param createGain) \<rparr>"

text \<open>
  \<open>setupGraph\<close>, in the order of the source: the nodes created first (\<open>create_nodes\<close>), the
  reverb with its impulse response, the EQ stack, and the call of \<open>updateSettings\<close>. (The
  \<open>disconnect\<close> calls at its start act on the wiring only.)
\<close>

definition create_nodes :: "nat \<Rightarrow> MasteringSettings \<Rightarrow> AudioEngine \<Rightarrow> AudioEngine" where
  "create_nodes rate st e =
     e \<lparr> gainNode := Some createGain,
         compressorNode := Some createDynamicsCompressor,
         analyzerNode := Some (createAnalyser
            \<lparr> fftSize := ANALYZER_FFT_SIZE,
              smoothingTimeConstant := SMOOTHING_TIME_CONSTANT \<rparr>),
         saturationNode := Some (createWaveShaper
            \<lparr> curve := Some (makeDistortionCurve (saturation st)),
              oversample := Oversample_4x \<rparr>),
         softClipNode := Some (createWaveShaper
            \<lparr> curve := Some (makeSoftClipCurve (softClip st)),
              oversample := Oversample_4x \<rparr>),
         airNode := Some (make_airNode rate st),
         bodyNode := Some (make_bodyNode rate st),
         dynamicBassNode := Some (make_dynamicBassNode rate st),
         limiterNode := Some (createDynamicsCompressor
            \<lparr> comp_threshold := set_value (ceiling_db st) (comp_threshold createDynamicsCompressor),
              comp_ratio := set_value 20 (comp_ratio createDynamicsCompressor),
              comp_knee := set_value 0 (comp_knee createDynamicsCompressor),
              comp_attack := set_value 0.001 (comp_attack createDynamicsCompressor),
              comp_release := set_value 0.1 (comp_release createDynamicsCompressor) \<rparr>),
         msSideGainNode := Some (make_msSideGain st),
         stereoBassNode := Some (make_stereoBassNode rate st) \<rparr>"

definition attach_reverb :: "nat \<Rightarrow> AudioBuffer \<Rightarrow> AudioEngine \<Rightarrow> AudioEngine" where
  "attach_reverb rate impulse e =
     e \<lparr> reverbNode := Some (createConvolver \<lparr> convolver_buffer := Some impulse \<rparr>),
         reverbToneNode := Some (make_reverbToneNode rate),
         wetGainNode := Some createGain,
         dryGainNode := Some createGain \<rparr>"

definition setupGraph :: "MasteringSettings \<Rightarrow> AudioEngine \<times> Host \<Rightarrow> AudioEngine \<times> Host" where
  "setupGraph st s =
     (case s of (e, h) \<Rightarrow>
        (case (audioContext e, audioBuffer e) of
           (Some ctx, Some buf) \<Rightarrow>
             let rate = context_sampleRate ctx;
                 e1 = e \<lparr> eqNodes := [] \<rparr>;
                 e2 = create_nodes rate st e1;
                 (impulse, e3, h3) =
                    createImpulseResponse (Live ctx) 3 (decay (reverb st)) False (e2, h);
                 e4 = attach_reverb rate (snd impulse) e3;
                 e5 = e4 \<lparr> eqNodes := make_eqNodes rate st \<rparr>
             in (updateSettings st e5, h3)
         | _ \<Rightarrow> (e, h)))"

subsection \<open>The wired chain\<close>

text \<open>
  The gain nodes that \<open>play\<close> and \<open>renderOffline\<close> create, with the same values, around the
  splitter and the merger of the mid/side section.
\<close>

record MidSideNodes =
  sumL :: GainNode
  sumR :: GainNode
  diffL :: GainNode
  diffR :: GainNode
  midChannel :: GainNode
  sideChannel :: GainNode
  outL_Mid :: GainNode
  outL_Side :: GainNode
  outR_Mid :: GainNode
  outR_Side :: GainNode

definition make_midSide :: MidSideNodes where
  "make_midSide =
     \<lparr> sumL = gain_of 0.5, sumR = gain_of 0.5, diffL = gain_of 0.5, diffR = gain_of (- 0.5),
       midChannel = createGain, sideChannel = createGain,
       outL_Mid = gain_of 1, outL_Side = gain_of 1, outR_Mid = gain_of 1,
       outR_Side = gain_of (- 1) \<rparr>"

text \<open>
  The nodes of one chain, in the order of the signal path that the \<open>connect\<close> calls wire:
  source, EQ stack, dynamic bass, body, saturation, compressor, dry gain and (reverb tone,
  reverb, wet gain) in parallel, air, mid/side section with the stereo-bass shelf and the
  side gain on the side channel, master gain, soft clip, limiter, and on the live path the
  analyser before the destination.
\<close>

record Graph =
  g_source :: AudioBufferSourceNode
  g_eqNodes :: "BiquadFilterNode list"
  g_dynamicBass :: BiquadFilterNode
  g_body :: BiquadFilterNode
  g_saturation :: WaveShaperNode
  g_compressor :: DynamicsCompressorNode
  g_dryGain :: GainNode
  g_reverbTone :: BiquadFilterNode
  g_reverb :: ConvolverNode
  g_wetGain :: GainNode
  g_air :: BiquadFilterNode
  g_midSide :: MidSideNodes
  g_stereoBass :: BiquadFilterNode
  g_msSideGain :: GainNode
  g_masterGain :: GainNode
  g_softClip :: WaveShaperNode
  g_limiter :: DynamicsCompressorNode
  g_analyzer :: "AnalyserNode option"

text \<open>
  The signal of the mid/side section, from the two outputs of the splitter to the two inputs
  of the merger: a gain node multiplies by its gain, connections into one input add up, and
  \<open>biquad\<close> is the host's filter. Signals are sequences of samples.
\<close>

type_synonym signal = "nat \<Rightarrow> real"

definition through_gain :: "GainNode \<Rightarrow> signal \<Rightarrow> signal" where
  "through_gain g x = (\<lambda>i. param_value (gain_param g) * x i)"

definition summed :: "signal \<Rightarrow> signal \<Rightarrow> signal" where
  "summed x y = (\<lambda>i. x i + y i)"

definition mid_signal :: "Graph \<Rightarrow> signal \<Rightarrow> signal \<Rightarrow> signal" where
  "mid_signal g l r =
     through_gain (midChannel (g_midSide g))
       (summed (through_gain (sumL (g_midSide g)) l) (through_gain (sumR (g_midSide g)) r))"

definition side_signal :: "Graph \<Rightarrow> signal \<Rightarrow> signal \<Rightarrow> signal" where
  "side_signal g l r =
     through_gain (sideChannel (g_midSide g))
       (summed (through_gain (diffL (g_midSide g)) l) (through_gain (diffR (g_midSide g)) r))"

definition mid_side_section ::
  "(BiquadFilterNode \<Rightarrow> signal \<Rightarrow> signal) \<Rightarrow> Graph \<Rightarrow> signal \<times> signal \<Rightarrow> signal \<times> signal" where
  "mid_side_section biquad g lr =
     (case lr of (l, r) \<Rightarrow>
        let mid = mid_signal g l r;
            side = through_gain (g_msSideGain g) (biquad (g_stereoBass g) (side_signal g l r))
        in (summed (through_gain (outL_Mid (g_midSide g)) mid)
              (through_gain (outL_Side (g_midSide g)) side),
            summed (through_gain (outR_Mid (g_midSide g)) mid)
              (through_gain (outR_Side (g_midSide g)) side)))"

subsection \<open>Playback (play)\<close>

datatype error = Error string | TypeError

text \<open>
  The chain \<open>play\<close> wires from the nodes held in the engine. The source dereferences each
  node with \<open>!\<close>; a missing node would make \<open>connect\<close> throw a \<open>TypeError\<close>.
\<close>

definition live_graph :: "AudioEngine \<Rightarrow> AudioBufferSourceNode \<Rightarrow> Graph option" where
  "live_graph e src =
     do {
       dyn \<leftarrow> dynamicBassNode e;
       bod \<leftarrow> bodyNode e;
       sat \<leftarrow> saturationNode e;
       cmp \<leftarrow> compressorNode e;
       dry \<leftarrow> dryGainNode e;
       tone \<leftarrow> reverbToneNode e;
       rev \<leftarrow> reverbNode e;
       wet \<leftarrow> wetGainNode e;
       airN \<leftarrow> airNode e;
       sb \<leftarrow> stereoBassNode e;
       msg \<leftarrow> msSideGainNode e;
       mg \<leftarrow> gainNode e;
       clip \<leftarrow> softClipNode e;
       lim \<leftarrow> limiterNode e;
       an \<leftarrow> analyzerNode e;
       Some \<lparr> g_source = src, g_eqNodes = eqNodes e, g_dynamicBass = dyn, g_body = bod,
              g_saturation = sat, g_compressor = cmp, g_dryGain = dry, g_reverbTone = tone,
              g_reverb = rev, g_wetGain = wet, g_air = airN, g_midSide = make_midSide,
              g_stereoBass = sb, g_msSideGain = msg, g_masterGain = mg, g_softClip = clip,
              g_limiter = lim, g_analyzer = Some an \<rparr>
     }"

text \<open>
  \<open>play\<close> returns nothing; the model returns the engine, the host and the chain now wired to
  the destination of the live context, if one was wired.
\<close>

definition play ::
  "real \<Rightarrow> MasteringSettings \<Rightarrow> AudioEngine \<times> Host
     \<Rightarrow> error + (AudioEngine \<times> Host \<times> Graph option)" where
  "play offset st s =
     (case s of (e, h) \<Rightarrow>
        (case (audioContext e, audioBuffer e) of
           (Some ctx, Some buf) \<Rightarrow>
             let ctx' = (if context_state ctx = Suspended
                         then ctx \<lparr> context_state := Running \<rparr> else ctx);
                 (e1, h1) = setupGraph st (e \<lparr> audioContext := Some ctx' \<rparr>, h);
                 src = createBufferSource \<lparr> source_buffer := Some buf \<rparr>;
                 e2 = e1 \<lparr> sourceNode := Some src \<rparr>
             in (case live_graph e2 src of
                   None \<Rightarrow> Inl TypeError
                 | Some g \<Rightarrow>
                     let started = src \<lparr> source_started := Some (0, offset) \<rparr>;
                         e3 = e2 \<lparr> startTime := currentTime ctx' - offset,
                                   pausedAt := offset,
                                   sourceNode := Some started,
                                   isPlaying := True \<rparr>
                     in Inr (e3, h1, Some (g \<lparr> g_source := started \<rparr>)))
         | _ \<Rightarrow> Inr (e, h, None)))"

subsection \<open>Offline rendering (renderOffline)\<close>

definition offline_graph :: "MasteringSettings \<Rightarrow> AudioBuffer \<Rightarrow> AudioBuffer \<Rightarrow> Graph" where
  "offline_graph st buf impulse =
     \<lparr> g_source = createBufferSource \<lparr> source_buffer := Some buf, source_started := Some (0, 0) \<rparr>,
       g_eqNodes = make_eqNodes (sampleRate buf) st,
       g_dynamicBass = make_dynamicBassNode (sampleRate buf) st,
       g_body = make_bodyNode (sampleRate buf) st,
       g_saturation = createWaveShaper
          \<lparr> curve := Some (makeDistortionCurve (saturation st)), oversample := Oversample_none \<rparr>,
       g_compressor = createDynamicsCompressor
          \<lparr> comp_threshold := set_value (threshold (compressor st)) (comp_threshold createDynamicsCompressor),
            comp_ratio := set_value (max 1 (ratio (compressor st))) (comp_ratio createDynamicsCompressor),
            comp_attack := set_value (attack (compressor st)) (comp_attack createDynamicsCompressor),
            comp_release := set_value (release (compressor st)) (comp_release createDynamicsCompressor) \<rparr>,
       g_dryGain = gain_of (1 - mix (reverb st)),
       g_reverbTone = make_reverbToneNode (sampleRate buf),
       g_reverb = createConvolver \<lparr> convolver_buffer := Some impulse \<rparr>,
       g_wetGain = gain_of (mix (reverb st)),
       g_air = make_airNode (sampleRate buf) st,
       g_midSide = make_midSide,
       g_stereoBass = make_stereoBassNode (sampleRate buf) st,
       g_msSideGain = make_msSideGain st,
       g_masterGain = gain_of (1.0 + masterGain st),
       g_softClip = createWaveShaper
          \<lparr> curve := Some (makeSoftClipCurve (softClip st)), oversample := Oversample_none \<rparr>,
       g_limiter = createDynamicsCompressor
          \<lparr> comp_threshold := set_value (ceiling_db st) (comp_threshold createDynamicsCompressor),
            comp_ratio := set_value 20 (comp_ratio createDynamicsCompressor),
            comp_attack := set_value 0.001 (comp_attack createDynamicsCompressor),
            comp_release := set_value 0.1 (comp_release createDynamicsCompressor) \<rparr>,
       g_analyzer = None \<rparr>"

text \<open>
  \<open>renderOffline\<close> up to its last line (\<open>render_request\<close>): the offline context it creates
  and the chain it wires to the destination of that context. Its last line hands both to
  \<open>startRendering\<close>, the host's renderer of an offline context, and returns the buffer the
  renderer produces.
\<close>

definition render_request ::
  "MasteringSettings \<Rightarrow> AudioEngine \<times> Host
     \<Rightarrow> error + ((OfflineAudioContext \<times> Graph) \<times> AudioEngine \<times> Host)" where
  "render_request st s =
     (case s of (e, h) \<Rightarrow>
        (case audioBuffer e of
           None \<Rightarrow> Inl (Error ''No Audio'')
         | Some buf \<Rightarrow>
             let offlineCtx = \<lparr> offline_channels = 2, offline_length = buffer_length buf,
                                offline_sampleRate = sampleRate buf \<rparr>;
                 (impulse, e1, h1) =
                    createImpulseResponse (Offline offlineCtx) 3 (decay (reverb st)) False (e, h);
                 graph = offline_graph st buf (snd impulse)
             in Inr ((offlineCtx, graph), e1, h1)))"

definition renderOffline ::
  "(OfflineAudioContext \<Rightarrow> Graph \<Rightarrow> AudioBuffer) \<Rightarrow> MasteringSettings \<Rightarrow> AudioEngine \<times> Host
     \<Rightarrow> error + (AudioBuffer \<times> AudioEngine \<times> Host)" where
  "renderOffline startRendering st s =
     (case render_request st s of
        Inl err \<Rightarrow> Inl err
      | Inr ((offlineCtx, graph), s') \<Rightarrow> Inr (startRendering offlineCtx graph, s'))"

subsection \<open>Two successive renders, and concrete states for the examples\<close>

text \<open>
  The second of two successive calls of \<open>renderOffline\<close> with the same settings: it starts
  in the state the first one leaves. \<open>second_request\<close> is what the second call hands to the
  renderer, \<open>second_render\<close> what it returns.
\<close>

definition second_request ::
  "MasteringSettings \<Rightarrow> AudioEngine \<times> Host
     \<Rightarrow> error + ((OfflineAudioContext \<times> Graph) \<times> AudioEngine \<times> Host)" where
  "second_request st s =
     (case render_request st s of
        Inl err \<Rightarrow> Inl err
      | Inr (request1, s1) \<Rightarrow> render_request st s1)"

definition second_render ::
  "(OfflineAudioContext \<Rightarrow> Graph \<Rightarrow> AudioBuffer) \<Rightarrow> MasteringSettings \<Rightarrow> AudioEngine \<times> Host
     \<Rightarrow> error + (AudioBuffer \<times> AudioEngine \<times> Host)" where
  "second_render startRendering st s =
     (case renderOffline startRendering st s of
        Inl err \<Rightarrow> Inl err
      | Inr (out1, s1) \<Rightarrow> renderOffline startRendering st s1)"

text \<open>The value of a call, without the state it leaves.\<close>

definition rendered :: "error + ('a \<times> AudioEngine \<times> Host) \<Rightarrow> error + 'a" where
  "rendered res = (case res of Inl err \<Rightarrow> Inl err | Inr (out, s) \<Rightarrow> Inr out)"

text \<open>The impulse response in the convolver of a chain handed to the renderer.\<close>

definition request_impulse :: "error + (OfflineAudioContext \<times> Graph) \<Rightarrow> AudioBuffer option" where
  "request_impulse res =
     (case res of Inl err \<Rightarrow> None | Inr (ctx, graph) \<Rightarrow> convolver_buffer (g_reverb graph))"

text \<open>
  An engine after \<open>loadFile\<close>: a live context at 44100 Hz and a stereo buffer of one second.
  One host draws the random numbers \<open>1/2, 1/3, 1/4, ...\<close>, the other repeats \<open>0, 1/4, 1/2\<close>.
\<close>

definition demo_context :: AudioContext where
  "demo_context =
     \<lparr> context_id = 0, context_sampleRate = 44100, context_state = Running, currentTime = 0 \<rparr>"

definition demo_buffer :: AudioBuffer where
  "demo_buffer =
     \<lparr> numberOfChannels = 2, buffer_length = 44100, sampleRate = 44100,
       channelData = (\<lambda>ch i. 1 / 2) \<rparr>"

definition demo_engine :: AudioEngine where
  "demo_engine =
     new_AudioEngine \<lparr> audioContext := Some demo_context, audioBuffer := Some demo_buffer \<rparr>"

definition demo_host :: Host where
  "demo_host = \<lparr> random_stream = (\<lambda>i. 1 / (real i + 2)), random_pos = 0, next_id = 1 \<rparr>"


definition demo_offline :: BaseAudioContext where
  "demo_offline =
     Offline \<lparr> offline_channels = 2, offline_length = 44100, offline_sampleRate = 44100 \<rparr>"

definition reverb_settings :: MasteringSettings where
  "reverb_settings = DEFAULT_SETTINGS \<lparr> reverb := \<lparr> mix = 0.2, decay = 2.0 \<rparr> \<rparr>"

text \<open>A host filter for concrete runs: a shelf as the broadband gain of its decibel value.\<close>

definition flat_biquad :: "BiquadFilterNode \<Rightarrow> signal \<Rightarrow> signal" where
  "flat_biquad n x = (\<lambda>i. 10 powr (param_value (filter_gain n) / 20) * x i)"

text \<open>
  What one EQ stage is, apart from its automation events: its type and the values of its
  frequency, gain and Q.
\<close>

record Stage =
  stage_type :: BiquadFilterType
  stage_frequency :: real
  stage_gain :: real
  stage_Q :: real

definition stage_of :: "BiquadFilterNode \<Rightarrow> Stage" where
  "stage_of n =
     \<lparr> stage_type = filter_type n,
       stage_frequency = param_value (filter_frequency n),
       stage_gain = param_value (filter_gain n),
       stage_Q = param_value (filter_Q n) \<rparr>"

definition shuffled_settings :: MasteringSettings where
  "shuffled_settings =
     DEFAULT_SETTINGS \<lparr> eq := [\<lparr> frequency = 1000, gain = 2 \<rparr>, \<lparr> frequency = 60, gain = - 1 \<rparr>,
                                \<lparr> frequency = 8000, gain = 3 \<rparr>] \<rparr>"

definition single_band_settings :: MasteringSettings where
  "single_band_settings = DEFAULT_SETTINGS \<lparr> eq := [\<lparr> frequency = 1000, gain = 2 \<rparr>] \<rparr>"

text \<open>The chain that a call of \<open>play\<close> has wired, if it wired one.\<close>

definition wired_chain :: "error + (AudioEngine \<times> Host \<times> Graph option) \<Rightarrow> Graph option" where
  "wired_chain res = (case res of Inl err \<Rightarrow> None | Inr (e, h, g) \<Rightarrow> g)"


section \<open>Properties of the mastering assistant\<close>

lemma log10_tenth: "log 10 (1 / 10) = - 1"
  by (simp add: log_divide)

lemma fifth_power_of_root: "((10::real) powr (1 / 5)) ^ 5 = 10"
  by (simp add: powr_power)

lemma fifth_root_le: "(10::real) powr (1 / 5) \<le> 9 / 5"
proof (rule ccontr)
  assume "\<not> (10::real) powr (1 / 5) \<le> 9 / 5"
  then have "9 / 5 < (10::real) powr (1 / 5)" by simp
  then have "(9 / 5 :: real) ^ 5 < ((10::real) powr (1 / 5)) ^ 5"
    by (intro power_strict_mono) simp_all
  then show False unfolding fifth_power_of_root by (simp add: power_divide)
qed

lemma fifth_root_ge: "1 \<le> (10::real) powr (1 / 5)"
  by (rule ge_one_powr_ge_zero) simp_all

lemma fifth_root_approx: "\<bar>(10::real) powr (1 / 5) - 1 - 0.585\<bar> < 0.001"
proof -
  have lo: "(1584 / 1000 :: real) < 10 powr (1 / 5)"
  proof (rule ccontr)
    assume "\<not> (1584 / 1000 :: real) < 10 powr (1 / 5)"
    then have "(10::real) powr (1 / 5) \<le> 1584 / 1000" by simp
    then have "((10::real) powr (1 / 5)) ^ 5 \<le> (1584 / 1000) ^ 5"
      by (intro power_mono) simp_all
    then show False unfolding fifth_power_of_root by (simp add: power_divide)
  qed
  have hi: "(10::real) powr (1 / 5) < 1586 / 1000"
  proof (rule ccontr)
    assume "\<not> (10::real) powr (1 / 5) < 1586 / 1000"
    then have "(1586 / 1000 :: real) \<le> 10 powr (1 / 5)" by simp
    then have "(1586 / 1000 :: real) ^ 5 \<le> ((10::real) powr (1 / 5)) ^ 5"
      by (intro power_mono) simp_all
    then show False unfolding fifth_power_of_root by (simp add: power_divide)
  qed
  from lo hi have "\<bar>(10::real) powr (1 / 5) - 1 - 585 / 1000\<bar> < 1 / 1000" by linarith
  then show ?thesis by simp
qed

text \<open>
  Every number the loudness branch stores into the settings is finite, whatever the gain
  needed (\<open>Infinity\<close> for a silent input).
\<close>

lemma stored_numbers_finite:
  assumes "js_gt needed (Num 0.5)"
  shows "js_clamp (js_sub (Math_pow10 (js_scale (1 / 20) (Math_min needed (Num 4.0)))) (Num 1.0))
               (Num 0.0) (Num 0.8) \<notin> {PosInf, NegInf, NaN}"
    and "js_clamp (js_scale 0.08 (Math_max (Num 0) (js_sub needed (Math_min needed (Num 4.0)))))
               (Num 0) (Num 0.4) \<notin> {PosInf, NegInf, NaN}"
proof -
  show "js_clamp (js_sub (Math_pow10 (js_scale (1 / 20) (Math_min needed (Num 4.0)))) (Num 1.0))
               (Num 0.0) (Num 0.8) \<notin> {PosInf, NegInf, NaN}"
    using assms by (cases needed) (simp_all add: js_gt_def js_clamp_def js_sub_def)
  show "js_clamp (js_scale 0.08 (Math_max (Num 0) (js_sub needed (Math_min needed (Num 4.0)))))
               (Num 0) (Num 0.4) \<notin> {PosInf, NegInf, NaN}"
    using assms by (cases needed) (simp_all add: js_gt_def js_clamp_def js_sub_def)
qed

lemma scenario_estimatedLUFS:
  "estimatedLUFS \<lparr> rms = 0.1, crestFactor = 3, spectralFlux = 20, musicalKey = k,
       musicalScale = sc, bpm = b, spectralBalance = sb, lowEnergy = 0.5, midEnergy = 0.5 \<rparr>
     = Num (- 20.6)"
  by (simp add: estimatedLUFS_def Math_log10_def log10_tenth js_sub_def)

lemma scenario_targetLUFS: "targetLUFS (Num (- 20.6)) = Num (- 10)"
  by (simp add: targetLUFS_def js_gt_def)

lemma scenario_gainNeeded:
  "gainNeeded \<lparr> rms = 0.1, crestFactor = 3, spectralFlux = 20, musicalKey = k,
       musicalScale = sc, bpm = b, spectralBalance = sb, lowEnergy = 0.5, midEnergy = 0.5 \<rparr>
     = Num 10.6"
  unfolding gainNeeded_def scenario_estimatedLUFS scenario_targetLUFS by (simp add: js_sub_def)

lemma scenario_settings:
  "settings (generateAiSettings \<lparr> rms = 0.1, crestFactor = 3, spectralFlux = 20, musicalKey = k,
       musicalScale = sc, bpm = b, spectralBalance = sb, lowEnergy = 0.5, midEnergy = 0.5 \<rparr>)
     = DEFAULT_SETTINGS \<lparr> eq := eq_forEach sb 0 (eq DEFAULT_SETTINGS), stereoWidth := 0.15,
         saturation := 0.01, body := 0, masterGain := 10 powr (1 / 5) - 1, ceiling_db := - 0.3,
         softClip := 0.4,
         compressor := \<lparr> threshold = - 16, ratio = 2.0, attack = 0.010, release = 0.15 \<rparr> \<rparr>"
  unfolding generateAiSettings_def Let_def scenario_gainNeeded
  using fifth_root_le fifth_root_ge
  by (simp add: js_gt_def js_clamp_def js_sub_def toFixed_def)

text \<open>
  Claim C3. For the analysis with \<open>rms = 0.1\<close>, \<open>crestFactor = 3\<close>, \<open>spectralFlux = 20\<close>,
  \<open>lowEnergy = 0.5\<close> and \<open>midEnergy = 0.5\<close> (whatever its other fields), the assistant computes
  \<open>estimatedLUFS = -20.6\<close>, \<open>targetLUFS = -10\<close> and \<open>gainNeeded = 10.6\<close>, and returns
  \<open>masterGain = clamp(10^0.2 - 1, 0, 0.8)\<close>, which is within 0.001 of 0.585, \<open>ceiling = -0.3\<close>,
  \<open>softClip = 0.4\<close> and the compressor \<open>{-16, 2.0, 0.01, 0.15}\<close>.
\<close>

theorem generateAiSettings_literal_scenario:
  "let a = \<lparr> rms = 0.1, crestFactor = 3, spectralFlux = 20, musicalKey = k, musicalScale = sc,
              bpm = b, spectralBalance = sb, lowEnergy = 0.5, midEnergy = 0.5 \<rparr>;
       r = settings (generateAiSettings a)
   in estimatedLUFS a = Num (- 20.6)
      \<and> targetLUFS (estimatedLUFS a) = Num (- 10)
      \<and> gainNeeded a = Num 10.6
      \<and> masterGain r = clamp (10 powr 0.2 - 1) 0 0.8
      \<and> \<bar>masterGain r - 0.585\<bar> < 0.001
      \<and> ceiling_db r = - 0.3
      \<and> softClip r = 0.4
      \<and> compressor r = \<lparr> threshold = - 16, ratio = 2.0, attack = 0.01, release = 0.15 \<rparr>"
proof -
  have c: "clamp (10 powr 0.2 - 1) 0 0.8 = (10::real) powr (1 / 5) - 1"
    using fifth_root_le fifth_root_ge by (simp add: clamp_def)
  show ?thesis
    unfolding Let_def scenario_settings scenario_estimatedLUFS scenario_targetLUFS
      scenario_gainNeeded c
    using fifth_root_approx by simp
qed

lemma eq_forEach_length: "length (eq_forEach sb k bands) = length bands"
  by (induction bands arbitrary: k) simp_all

lemma eq_forEach_nth:
  "i < length bands \<Longrightarrow> eq_forEach sb k bands ! i = eq_band_step sb (k + i) (bands ! i)"
proof (induction bands arbitrary: k i)
  case Nil
  then show ?case by simp
next
  case (Cons b bs)
  show ?case
  proof (cases i)
    case 0
    then show ?thesis by simp
  next
    case (Suc j)
    with Cons.prems have "j < length bs" by simp
    from Cons.IH [OF this, of "Suc k"] Suc show ?thesis by simp
  qed
qed

lemma eq_band_step_past_end: "length sb \<le> i \<Longrightarrow> eq_band_step sb i band = band"
  by (simp add: eq_band_step_def array_get_def)

lemma generateAiSettings_eq:
  "eq (settings (generateAiSettings a)) = eq_forEach (spectralBalance a) 0 (eq DEFAULT_SETTINGS)"
  by (simp add: generateAiSettings_def Let_def)

lemma default_eq_length: "length (eq DEFAULT_SETTINGS) = 14"
  by (simp add: DEFAULT_SETTINGS_def DEFAULT_EQ_FREQUENCIES_def)

lemma default_eq_gain:
  assumes "i < 14"
  shows "gain (eq DEFAULT_SETTINGS ! i) = 0"
proof -
  from assms have "i < length DEFAULT_EQ_FREQUENCIES" by (simp add: DEFAULT_EQ_FREQUENCIES_def)
  then show ?thesis by (simp add: DEFAULT_SETTINGS_def)
qed

lemma eq_forEach_reads_set:
  "set (eq_forEach_reads sb k bands) = {k ..< k + length bands}"
proof (induction bands arbitrary: k)
  case Nil
  then show ?case by simp
next
  case (Cons b bs)
  have "set (eq_band_reads sb k) = {k}"
    by (simp add: eq_band_reads_def split: option.splits)
  with Cons.IH [of "Suc k"] show ?case by auto
qed

lemma spectralBalance_reads_set: "set (spectralBalance_reads a) = {0 ..< 14}"
  by (simp add: spectralBalance_reads_def eq_forEach_reads_set default_eq_length)

lemma eq_band_reads_past_end: "length sb \<le> i \<Longrightarrow> eq_band_reads sb i = [i]"
  by (simp add: eq_band_reads_def array_get_def)

text \<open>
  Claim C10, as stated, fails in its first half: the loop reads \<open>spectralBalance[i]\<close> for
  every band index, whatever the length of the array. For a \<open>spectralBalance\<close> of three
  entries the reads are at 0, 1 and 2 (twice each, the test and the use) and then at 3 to 13,
  all past the end.
\<close>

theorem generateAiSettings_reads_past_end_counterexample:
  "length (spectralBalance short_analysis) = 3
   \<and> spectralBalance_reads short_analysis = [0, 0, 1, 1, 2, 2, 3, 4, 5, 6, 7, 8, 9, 10, 11, 12, 13]
   \<and> 3 \<in> set (spectralBalance_reads short_analysis)
   \<and> array_get (spectralBalance short_analysis) 3 = None"
  by (simp add: short_analysis_def spectralBalance_reads_def DEFAULT_SETTINGS_def
      DEFAULT_EQ_FREQUENCIES_def eq_band_reads_def array_get_def)

text \<open>
  Claim C10, amended. When \<open>spectralBalance\<close> is shorter than the 14 bands, the loop does read
  it at every index at or beyond its length, once, in the test against \<open>undefined\<close>; the read
  yields \<open>undefined\<close> and the band is skipped. The returned settings have 14 bands, and every
  band at such an index is the default band, with gain 0.
\<close>

theorem generateAiSettings_short_spectralBalance_guarded:
  assumes "length (spectralBalance a) \<le> i" and "i < 14"
  shows "i \<in> set (spectralBalance_reads a)
    \<and> eq_band_reads (spectralBalance a) i = [i]
    \<and> array_get (spectralBalance a) i = None
    \<and> length (eq (settings (generateAiSettings a))) = 14
    \<and> eq (settings (generateAiSettings a)) ! i = eq DEFAULT_SETTINGS ! i
    \<and> gain (eq (settings (generateAiSettings a)) ! i) = 0"
  using assms
  by (simp add: generateAiSettings_eq eq_forEach_length eq_forEach_nth default_eq_length
      eq_band_step_past_end default_eq_gain array_get_def spectralBalance_reads_set
      eq_band_reads_past_end)

theorem generateAiSettings_short_spectralBalance_guarded_witness:
  "3 \<in> set (spectralBalance_reads short_analysis)
   \<and> eq_band_reads (spectralBalance short_analysis) 3 = [3]
   \<and> array_get (spectralBalance short_analysis) 3 = None
   \<and> gain (eq (settings (generateAiSettings short_analysis)) ! 3) = 0"
proof -
  have "length (spectralBalance short_analysis) \<le> 3" and "(3::nat) < 14"
    by (simp_all add: short_analysis_def)
  from generateAiSettings_short_spectralBalance_guarded [OF this] show ?thesis by blast
qed

section \<open>Properties of the WAV export\<close>

lemma write_bytes_length: "length (write_bytes view off bs) = length view"
  by (induction bs arbitrary: view off) simp_all

lemma write_bytes_below: "i < off \<Longrightarrow> write_bytes view off bs ! i = view ! i"
  by (induction bs arbitrary: view off) simp_all

lemma write_bytes_nth:
  "off + length bs \<le> length view \<Longrightarrow> k < length bs \<Longrightarrow> write_bytes view off bs ! (off + k) = bs ! k"
proof (induction bs arbitrary: view off k)
  case Nil
  then show ?case by simp
next
  case (Cons b bs)
  show ?case
  proof (cases k)
    case 0
    with Cons.prems show ?thesis by (simp add: write_bytes_below)
  next
    case (Suc j)
    with Cons.prems have "Suc off + length bs \<le> length (view[off := b])" and "j < length bs"
      by simp_all
    from Cons.IH [OF this] Suc show ?thesis by simp
  qed
qed

lemma write_bytes_above:
  "off + length bs \<le> i \<Longrightarrow> write_bytes view off bs ! i = view ! i"
  by (induction bs arbitrary: view off) simp_all

lemma write_sample_length: "length (fst (write_sample f32 fmt x (view, off))) = length view"
  by (cases fmt) (simp_all add: write_sample_def Let_def setUint8_def setInt16_def write_bytes_length)

lemma write_sample_offset: "snd (write_sample f32 fmt x (view, off)) = off + bytesPerSample fmt"
  by (cases fmt) (simp_all add: write_sample_def Let_def bytesPerSample_def bitDepth_def)

lemma write_sample_below:
  "i < off \<Longrightarrow> fst (write_sample f32 fmt x (view, off)) ! i = view ! i"
  by (cases fmt) (simp_all add: write_sample_def Let_def setUint8_def setInt16_def write_bytes_below)


lemma channel_fold_inv:
  "length (fst (fold (\<lambda>ch. write_sample f32 fmt (g ch)) chs (view, off))) = length view
   \<and> snd (fold (\<lambda>ch. write_sample f32 fmt (g ch)) chs (view, off)) = off + length chs * bytesPerSample fmt
   \<and> (\<forall>j<off. fst (fold (\<lambda>ch. write_sample f32 fmt (g ch)) chs (view, off)) ! j = view ! j)"
proof (induction chs arbitrary: view off)
  case Nil
  show ?case by simp
next
  case (Cons c cs)
  obtain v1 o1 where st: "write_sample f32 fmt (g c) (view, off) = (v1, o1)"
    by (cases "write_sample f32 fmt (g c) (view, off)")
  have l1: "length v1 = length view"
    using write_sample_length [of f32 fmt "g c" view off] st by simp
  have o1: "o1 = off + bytesPerSample fmt"
    using write_sample_offset [of f32 fmt "g c" view off] st by simp
  have b1: "\<And>j. j < off \<Longrightarrow> v1 ! j = view ! j"
    using write_sample_below [of _ off f32 fmt "g c" view] st by simp
  from Cons.IH [of v1 o1] l1 o1 b1 show ?case
    by (simp add: st)
qed

lemma channel_loop_inv:
  "length (fst (channel_loop f32 fmt buffer i (view, off))) = length view
   \<and> snd (channel_loop f32 fmt buffer i (view, off)) = off + blockAlign buffer fmt
   \<and> (\<forall>j<off. fst (channel_loop f32 fmt buffer i (view, off)) ! j = view ! j)"
  using channel_fold_inv [of f32 fmt "\<lambda>ch. channelData buffer ch i" "[0 ..< numberOfChannels buffer]" view off]
  by (simp add: channel_loop_def blockAlign_def)

lemma frame_fold_inv:
  "length (fst (fold (channel_loop f32 fmt buffer) fs (view, off))) = length view
   \<and> snd (fold (channel_loop f32 fmt buffer) fs (view, off)) = off + length fs * blockAlign buffer fmt
   \<and> (\<forall>j<off. fst (fold (channel_loop f32 fmt buffer) fs (view, off)) ! j = view ! j)"
proof (induction fs arbitrary: view off)
  case Nil
  show ?case by simp
next
  case (Cons c cs)
  obtain v1 o1 where st: "channel_loop f32 fmt buffer c (view, off) = (v1, o1)"
    by (cases "channel_loop f32 fmt buffer c (view, off)")
  from channel_loop_inv [of f32 fmt buffer c view off] st
  have l1: "length v1 = length view" and o1: "o1 = off + blockAlign buffer fmt"
    and b1: "\<And>j. j < off \<Longrightarrow> v1 ! j = view ! j"
    by simp_all
  from Cons.IH [of v1 o1] l1 o1 b1 show ?case
    by (simp add: st)
qed

lemma sample_loop_inv:
  "length (fst (sample_loop f32 fmt buffer (view, off))) = length view
   \<and> snd (sample_loop f32 fmt buffer (view, off)) = off + dataSize buffer fmt
   \<and> (\<forall>j<off. fst (sample_loop f32 fmt buffer (view, off)) ! j = view ! j)"
  using frame_fold_inv [of f32 fmt buffer "[0 ..< buffer_length buffer]" view off]
  by (simp add: sample_loop_def dataSize_def)

lemma write_header_length: "length (write_header buffer fmt view) = length view"
  by (simp add: write_header_def Let_def writeString_def setUint32_def setUint16_def write_bytes_length)

lemma encodeWAV_length: "length (encodeWAV f32 buffer fmt) = totalSize buffer fmt"
  by (simp add: encodeWAV_def Let_def sample_loop_inv write_header_length)

lemma encodeWAV_header:
  "j < 44 \<Longrightarrow> encodeWAV f32 buffer fmt ! j
      = write_header buffer fmt (replicate (totalSize buffer fmt) 0) ! j"
  using sample_loop_inv [of f32 fmt buffer "write_header buffer fmt (replicate (totalSize buffer fmt) 0)" 44]
  by (simp add: encodeWAV_def Let_def)

lemma u32_le_length: "length (u32_le w) = 4"
  by (simp add: u32_le_def)

lemma u16_le_length: "length (u16_le w) = 2"
  by (simp add: u16_le_def)

lemma unat_low_byte: "unat (ucast (w :: 32 word) :: 8 word) = unat w mod 256"
  by (simp add: unsigned_ucast_eq take_bit_eq_mod)

lemma unat_drop_bit32: "unat (drop_bit n (w :: 32 word)) = unat w div 2 ^ n"
  unfolding unat_drop_bit_eq by (simp add: drop_bit_eq_div)

lemma bytes_value:
  fixes n :: nat
  assumes "n < 4294967296"
  shows "n mod 256 + 256 * (n div 256 mod 256) + 65536 * (n div 65536 mod 256)
          + 16777216 * (n div 16777216) = n"
proof -
  define q1 where "q1 = n div 256"
  define q2 where "q2 = q1 div 256"
  define q3 where "q3 = q2 div 256"
  have e2: "n div 65536 = q2"
    unfolding q2_def q1_def by (simp add: div_mult2_eq [symmetric])
  have e3: "n div 16777216 = q3"
    unfolding q3_def q2_def q1_def by (simp add: div_mult2_eq [symmetric])
  have s0: "n = 256 * q1 + n mod 256" unfolding q1_def by simp
  have s1: "q1 = 256 * q2 + q1 mod 256" unfolding q2_def by simp
  have s2: "q2 = 256 * q3 + q2 mod 256" unfolding q3_def by simp
  have "n mod 256 + 256 * (q1 mod 256) + 65536 * (q2 mod 256) + 16777216 * q3 = n"
    using s0 s1 s2 by linarith
  then show ?thesis unfolding e2 e3 q1_def [symmetric] .
qed

lemma u32_le_value:
  "unat (u32_le w ! 0) + 256 * unat (u32_le w ! 1) + 65536 * unat (u32_le w ! 2)
     + 16777216 * unat (u32_le w ! 3) = unat w"
proof -
  have b: "unat w < 4294967296" using unsigned_less [of w, where ?'a = nat] by simp
  have b0: "unat (u32_le w ! 0) = unat w mod 256"
    by (simp add: u32_le_def unat_low_byte)
  have b1: "unat (u32_le w ! 1) = unat w div 256 mod 256"
    by (simp add: u32_le_def unat_low_byte unat_drop_bit32)
  have b2: "unat (u32_le w ! 2) = unat w div 65536 mod 256"
    by (simp add: u32_le_def unat_low_byte unat_drop_bit32)
  have "unat (u32_le w ! 3) = unat w div 16777216 mod 256"
    by (simp add: u32_le_def unat_low_byte unat_drop_bit32)
  moreover have "unat w div 16777216 < 256" using b by simp
  ultimately have b3: "unat (u32_le w ! 3) = unat w div 16777216" by simp
  show ?thesis unfolding b0 b1 b2 b3 by (rule bytes_value [OF b])
qed

lemma header_riff_size:
  assumes "44 \<le> length view" and "k < 4"
  shows "write_header buffer fmt view ! (4 + k) = u32_le (of_nat (36 + dataSize buffer fmt)) ! k"
  using assms
  by (simp add: write_header_def Let_def writeString_def setUint32_def setUint16_def
      write_bytes_length write_bytes_below write_bytes_above write_bytes_nth
      u32_le_length u16_le_length)

lemma header_data_size:
  assumes "44 \<le> length view" and "k < 4"
  shows "write_header buffer fmt view ! (40 + k) = u32_le (of_nat (dataSize buffer fmt)) ! k"
  using assms
  by (simp add: write_header_def Let_def writeString_def setUint32_def setUint16_def
      write_bytes_length write_bytes_below write_bytes_above write_bytes_nth
      u32_le_length u16_le_length)


lemma encodeWAV_riff_size:
  "getUint32 (encodeWAV f32 buffer fmt) 4 = (36 + dataSize buffer fmt) mod 2 ^ 32"
proof -
  let ?v = "replicate (totalSize buffer fmt) (0 :: byte)"
  let ?w = "of_nat (36 + dataSize buffer fmt) :: 32 word"
  have len: "44 \<le> length ?v" by (simp add: totalSize_def headerSize_def)
  have h: "\<And>k. k < 4 \<Longrightarrow> encodeWAV f32 buffer fmt ! (4 + k) = u32_le ?w ! k"
    using header_riff_size [OF len] by (simp add: encodeWAV_header)
  have "getUint32 (encodeWAV f32 buffer fmt) 4 = unat ?w"
    using h [of 0] h [of 1] h [of 2] h [of 3] u32_le_value [of ?w]
    by (simp add: getUint32_def)
  then show ?thesis
    using unat_of_nat [of "36 + dataSize buffer fmt", where ?'a = 32] by simp
qed

lemma encodeWAV_data_size:
  "getUint32 (encodeWAV f32 buffer fmt) 40 = dataSize buffer fmt mod 2 ^ 32"
proof -
  let ?v = "replicate (totalSize buffer fmt) (0 :: byte)"
  let ?w = "of_nat (dataSize buffer fmt) :: 32 word"
  have len: "44 \<le> length ?v" by (simp add: totalSize_def headerSize_def)
  have h: "\<And>k. k < 4 \<Longrightarrow> encodeWAV f32 buffer fmt ! (40 + k) = u32_le ?w ! k"
    using header_data_size [OF len] by (simp add: encodeWAV_header)
  have "getUint32 (encodeWAV f32 buffer fmt) 40 = unat ?w"
    using h [of 0] h [of 1] h [of 2] h [of 3] u32_le_value [of ?w]
    by (simp add: getUint32_def)
  then show ?thesis by (simp add: unat_of_nat)
qed

text \<open>
  Claim C8. Encoding a 2-channel, 44100 Hz, 16-bit buffer of 1000 frames (whatever its
  samples) gives \<open>dataSize = 4000\<close>; bytes 4 to 7 of the file read as the little-endian
  unsigned integer 4036 and bytes 40 to 43 as 4000.
\<close>

theorem encodeWAV_header_scenario:
  "dataSize \<lparr> numberOfChannels = 2, buffer_length = 1000, sampleRate = 44100, channelData = cd \<rparr> WAV_16 = 4000
   \<and> getUint32 (encodeWAV f32
         \<lparr> numberOfChannels = 2, buffer_length = 1000, sampleRate = 44100, channelData = cd \<rparr> WAV_16) 4 = 4036
   \<and> getUint32 (encodeWAV f32
         \<lparr> numberOfChannels = 2, buffer_length = 1000, sampleRate = 44100, channelData = cd \<rparr> WAV_16) 40 = 4000"
proof -
  let ?b = "\<lparr> numberOfChannels = 2, buffer_length = 1000, sampleRate = 44100, channelData = cd \<rparr>"
  have d: "dataSize ?b WAV_16 = 4000"
    by (simp add: dataSize_def blockAlign_def bytesPerSample_def bitDepth_def)
  show ?thesis
    unfolding encodeWAV_riff_size encodeWAV_data_size d by simp
qed


lemma one_frame_stereo_16:
  "encodeWAV f32 \<lparr> numberOfChannels = 2, buffer_length = 1, sampleRate = r, channelData = cd \<rparr> WAV_16
     = setInt16
         (setInt16 (write_header \<lparr> numberOfChannels = 2, buffer_length = 1, sampleRate = r, channelData = cd \<rparr>
                   WAV_16 (replicate 48 0)) 44
           (let s0 = max (- 1) (min 1 (cd 0 0)) in if s0 < 0 then s0 * 0x8000 else s0 * 0x7FFF))
         46
         (let s0 = max (- 1) (min 1 (cd 1 0)) in if s0 < 0 then s0 * 0x8000 else s0 * 0x7FFF)"
proof -
  have u: "[0 ..< 2] = [0, Suc 0]" by (simp add: upt_rec)
  show ?thesis
    by (simp add: encodeWAV_def sample_loop_def channel_loop_def write_sample_def Let_def u
      totalSize_def headerSize_def dataSize_def blockAlign_def bytesPerSample_def bitDepth_def)
qed

text \<open>
  Claim C4, at a buffer whose two channels hold the single-precision samples \<open>2^-15 + 2^-31\<close>
  and \<open>-(2^-15 - 2^-32)\<close>, both in \<open>[-1, 1]\<close>: the 16-bit branch hands the scaled samples
  \<open>0.99998\<close> and \<open>-0.99999\<close> to \<open>setInt16\<close>, which cuts both to 0 (the 24-bit branch rounds
  with \<open>Math.round\<close> before it stores). The file holds the sample 0 twice; it decodes to 0,
  and the error of the first round trip is larger than \<open>1/32768\<close>. The two samples are more
  than \<open>2/32768\<close> apart, so whatever a decoder returns for the sample 0, one of the two
  errors is larger than \<open>1/32768\<close>.
\<close>

theorem encodeWAV_pcm16_truncates:
  fixes decoder :: "int \<Rightarrow> real"
  shows "- 1 \<le> (65537 / 2147483648 :: real) \<and> (65537 / 2147483648 :: real) \<le> 1
   \<and> - 1 \<le> (- (131071 / 4294967296) :: real) \<and> (- (131071 / 4294967296) :: real) \<le> 1
   \<and> getInt16 (encodeWAV f32 \<lparr> numberOfChannels = 2, buffer_length = 1, sampleRate = 44100,
          channelData = (\<lambda>ch i. if ch = 0 then 65537 / 2147483648 else - (131071 / 4294967296)) \<rparr>
          WAV_16) 44 = 0
   \<and> getInt16 (encodeWAV f32 \<lparr> numberOfChannels = 2, buffer_length = 1, sampleRate = 44100,
          channelData = (\<lambda>ch i. if ch = 0 then 65537 / 2147483648 else - (131071 / 4294967296)) \<rparr>
          WAV_16) 46 = 0
   \<and> 1 / 32768 < \<bar>decodePCM16 (getInt16 (encodeWAV f32 \<lparr> numberOfChannels = 2, buffer_length = 1,
          sampleRate = 44100,
          channelData = (\<lambda>ch i. if ch = 0 then 65537 / 2147483648 else - (131071 / 4294967296)) \<rparr>
          WAV_16) 44) - 65537 / 2147483648\<bar>
   \<and> (1 / 32768 < \<bar>decoder (getInt16 (encodeWAV f32 \<lparr> numberOfChannels = 2, buffer_length = 1,
          sampleRate = 44100,
          channelData = (\<lambda>ch i. if ch = 0 then 65537 / 2147483648 else - (131071 / 4294967296)) \<rparr>
          WAV_16) 44) - 65537 / 2147483648\<bar>
      \<or> 1 / 32768 < \<bar>decoder (getInt16 (encodeWAV f32 \<lparr> numberOfChannels = 2, buffer_length = 1,
          sampleRate = 44100,
          channelData = (\<lambda>ch i. if ch = 0 then 65537 / 2147483648 else - (131071 / 4294967296)) \<rparr>
          WAV_16) 46) - (- (131071 / 4294967296))\<bar>)"
proof -
  let ?b = "\<lparr> numberOfChannels = 2, buffer_length = 1, sampleRate = 44100,
              channelData = (\<lambda>ch i. if ch = 0 then 65537 / 2147483648 else - (131071 / 4294967296 :: real)) \<rparr>"
  let ?h = "write_header ?b WAV_16 (replicate 48 0)"
  have e: "encodeWAV f32 ?b WAV_16 = write_bytes (write_bytes ?h 44 [0, 0]) 46 [0, 0]"
    unfolding one_frame_stereo_16 by (simp add: setInt16_def js_trunc_def u16_le_def)
  have len: "44 + length [0 :: byte, 0] \<le> length ?h"
    by (simp add: write_header_length)
  have len2: "46 + length [0 :: byte, 0] \<le> length (write_bytes ?h 44 [0, 0])"
    by (simp add: write_header_length write_bytes_length)
  have b0: "encodeWAV f32 ?b WAV_16 ! 44 = 0"
    unfolding e using write_bytes_nth [OF len, of 0] by (simp add: write_bytes_below)
  have b1: "encodeWAV f32 ?b WAV_16 ! 45 = 0"
    unfolding e using write_bytes_nth [OF len, of 1] by (simp add: write_bytes_below)
  have b2: "encodeWAV f32 ?b WAV_16 ! 46 = 0"
    unfolding e using write_bytes_nth [OF len2, of 0] by simp
  have b3: "encodeWAV f32 ?b WAV_16 ! 47 = 0"
    unfolding e using write_bytes_nth [OF len2, of 1] by simp
  have g: "getInt16 (encodeWAV f32 ?b WAV_16) 44 = 0"
    unfolding getInt16_def using b0 b1 by simp
  have g2: "getInt16 (encodeWAV f32 ?b WAV_16) 46 = 0"
    unfolding getInt16_def using b2 b3 by simp
  have any: "1 / 32768 < \<bar>d - 65537 / 2147483648\<bar> \<or> 1 / 32768 < \<bar>d - (- (131071 / 4294967296))\<bar>"
    for d :: real
    by linarith
  show ?thesis
    unfolding g g2 using any [of "decoder (0::int)"] by (simp add: decodePCM16_def)
qed

section \<open>Properties of the impulse response and its cache\<close>

lemma impulse_loop_host:
  "snd (snd (impulse_loop i len dec rv (l, r, h))) = h \<lparr> random_pos := random_pos h + 2 * (len - i) \<rparr>"
proof (induction "len - i" arbitrary: i l r h rv)
  case 0
  then show ?case by (subst impulse_loop.simps) simp
next
  case (Suc d)
  then have lt: "i < len" and d: "d = len - Suc i" by simp_all
  have step: "2 * (len - i) = Suc (Suc (2 * (len - Suc i)))" using lt by simp
  show ?case
    by (subst impulse_loop.simps) (simp add: lt Let_def Math_random_def Suc.hyps(1) [OF d] step)
qed

lemma impulse_loop_left:
  "fst (impulse_loop i len dec rv (l, r, h)) j =
     (if i \<le> j \<and> j < len
      then (random_stream h (random_pos h + 2 * (j - i)) * 2 - 1)
             * Math_pow (1 - real (if rv then len - j else j) / real len) dec
      else l j)"
proof (induction "len - i" arbitrary: i l r h rv j)
  case 0
  then show ?case by (subst impulse_loop.simps) simp
next
  case (Suc d)
  then have lt: "i < len" and d: "d = len - Suc i" by simp_all
  show ?case
  proof (cases "j = i")
    case True
    then show ?thesis
      by (subst impulse_loop.simps) (simp add: lt Let_def Math_random_def Suc.hyps(1) [OF d])
  next
    case False
    have idx: "Suc i \<le> j \<Longrightarrow> 2 * (j - i) = Suc (Suc (2 * (j - Suc i)))"
      by simp
    from False show ?thesis
      by (subst impulse_loop.simps) (auto simp add: lt Let_def Math_random_def Suc.hyps(1) [OF d] idx)
  qed
qed


lemma synthesize_impulse_id: "fst (fst (synthesize_impulse ctx dur dec rv h)) = next_id h"
  by (simp add: synthesize_impulse_def createBuffer_def Let_def case_prod_beta)

lemma synthesize_impulse_host:
  "snd (synthesize_impulse ctx dur dec rv h)
     = h \<lparr> random_pos := random_pos h + 2 * (base_sampleRate ctx * dur),
           next_id := Suc (next_id h) \<rparr>"
  by (simp add: synthesize_impulse_def createBuffer_def Let_def case_prod_beta impulse_loop_host)


lemma synthesize_impulse_left:
  "channelData (snd (fst (synthesize_impulse ctx dur dec rv h))) 0 j =
     (if j < base_sampleRate ctx * dur
      then (random_stream h (random_pos h + 2 * j) * 2 - 1)
             * Math_pow (1 - real (if rv then base_sampleRate ctx * dur - j else j)
                               / real (base_sampleRate ctx * dur)) dec
      else 0)"
  by (simp add: synthesize_impulse_def createBuffer_def Let_def case_prod_beta impulse_loop_left)



lemma cache_hit_other_context:
  "\<not> same_context ctx (audioContext e) \<Longrightarrow> cache_hit ctx dec e = None"
  by (simp add: cache_hit_def split: option.splits)

lemma createImpulseResponse_miss:
  "cache_hit ctx dec e = None \<Longrightarrow>
   createImpulseResponse ctx dur dec rv (e, h) =
     (fst (synthesize_impulse ctx dur dec rv h),
      (if same_context ctx (audioContext e)
       then e \<lparr> impulseResponseCache := Some (fst (synthesize_impulse ctx dur dec rv h)),
               lastDecayValue := dec \<rparr>
       else e),
      snd (synthesize_impulse ctx dur dec rv h))"
  by (simp add: createImpulseResponse_def Let_def case_prod_beta)

lemma createImpulseResponse_hit:
  "cache_hit ctx dec e = Some cached \<Longrightarrow> createImpulseResponse ctx dur dec rv (e, h) = (cached, e, h)"
  by (simp add: createImpulseResponse_def)

lemma createImpulseResponse_other_context:
  "\<not> same_context ctx (audioContext e) \<Longrightarrow>
   createImpulseResponse ctx dur dec rv (e, h) =
     (fst (synthesize_impulse ctx dur dec rv h), e, snd (synthesize_impulse ctx dur dec rv h))"
  by (simp add: createImpulseResponse_miss cache_hit_other_context)

lemma same_context_cache_update [simp]:
  "audioContext (e \<lparr> impulseResponseCache := c, lastDecayValue := d \<rparr>) = audioContext e"
  by simp

lemma renderOffline_engine:
  "renderOffline render st (e, h) = Inr (out, e', h') \<Longrightarrow> e' = e"
  by (auto simp add: renderOffline_def render_request_def Let_def case_prod_beta same_context_def
      createImpulseResponse_other_context split: option.splits)

text \<open>
  Claim C9. A call of \<open>createImpulseResponse\<close> whose context is not the engine's live context
  leaves \<open>impulseResponseCache\<close> and \<open>lastDecayValue\<close> as they were, and its buffer and its
  effect on the host do not depend on what these two fields hold; every call of
  \<open>renderOffline\<close> returns the engine with both fields unchanged.
\<close>

theorem createImpulseResponse_other_context_frame:
  assumes "\<not> same_context ctx (audioContext e)"
  shows "impulseResponseCache (fst (snd (createImpulseResponse ctx dur dec rv (e, h)))) = impulseResponseCache e
    \<and> lastDecayValue (fst (snd (createImpulseResponse ctx dur dec rv (e, h)))) = lastDecayValue e
    \<and> fst (createImpulseResponse ctx dur dec rv (e \<lparr> impulseResponseCache := c, lastDecayValue := d \<rparr>, h))
        = fst (createImpulseResponse ctx dur dec rv (e, h))
    \<and> snd (snd (createImpulseResponse ctx dur dec rv (e \<lparr> impulseResponseCache := c, lastDecayValue := d \<rparr>, h)))
        = snd (snd (createImpulseResponse ctx dur dec rv (e, h)))
    \<and> (\<forall>render st out e' h'. renderOffline render st (e, h) = Inr (out, e', h')
          \<longrightarrow> impulseResponseCache e' = impulseResponseCache e \<and> lastDecayValue e' = lastDecayValue e)"
  using assms
  by (auto simp add: createImpulseResponse_other_context dest!: renderOffline_engine)

lemma cache_hit_Some_iff:
  "cache_hit ctx dec e = Some cached \<longleftrightarrow>
     impulseResponseCache e = Some cached \<and> same_context ctx (audioContext e)
       \<and> \<bar>lastDecayValue e - dec\<bar> < 0.01"
  by (auto simp add: cache_hit_def split: option.splits)

lemma cache_hit_None_iff:
  "cache_hit ctx dec e = None \<longleftrightarrow>
     impulseResponseCache e = None \<or> \<not> same_context ctx (audioContext e)
       \<or> 0.01 \<le> \<bar>lastDecayValue e - dec\<bar>"
  by (auto simp add: cache_hit_def split: option.splits)

lemma createImpulseResponse_leaves_cached:
  assumes "same_context ctx (audioContext e)"
  shows "impulseResponseCache (fst (snd (createImpulseResponse ctx dur dec rv (e, h))))
           = Some (fst (createImpulseResponse ctx dur dec rv (e, h)))"
    and "audioContext (fst (snd (createImpulseResponse ctx dur dec rv (e, h)))) = audioContext e"
    and "lastDecayValue (fst (snd (createImpulseResponse ctx dur dec rv (e, h))))
           = (if cache_hit ctx dec e = None then dec else lastDecayValue e)"
proof -
  show "impulseResponseCache (fst (snd (createImpulseResponse ctx dur dec rv (e, h))))
           = Some (fst (createImpulseResponse ctx dur dec rv (e, h)))"
  proof (cases "cache_hit ctx dec e")
    case None
    with assms show ?thesis by (simp add: createImpulseResponse_miss)
  next
    case (Some cached)
    then show ?thesis by (simp add: createImpulseResponse_hit cache_hit_Some_iff)
  qed
  show "audioContext (fst (snd (createImpulseResponse ctx dur dec rv (e, h)))) = audioContext e"
    by (cases "cache_hit ctx dec e") (simp_all add: createImpulseResponse_miss createImpulseResponse_hit)
  show "lastDecayValue (fst (snd (createImpulseResponse ctx dur dec rv (e, h))))
           = (if cache_hit ctx dec e = None then dec else lastDecayValue e)"
    using assms
    by (cases "cache_hit ctx dec e") (simp_all add: createImpulseResponse_miss createImpulseResponse_hit)
qed

text \<open>
  Claim C5, as the code has it. A request on the engine's live context returns the cached
  buffer object, and changes nothing, when a buffer is cached and the requested decay is
  less than 0.01 away from \<open>lastDecayValue\<close>, the decay of the request that synthesized the
  cached buffer; so the second of two successive requests on the live context returns the
  object of the first when its decay is less than 0.01 away from the \<open>lastDecayValue\<close> the
  first leaves. A request with nothing cached, or with a decay at least 0.01 away from
  \<open>lastDecayValue\<close>, or against any context other than the live one, returns a newly
  synthesized buffer: an object with a fresh identity.
\<close>

theorem createImpulseResponse_cache_behaviour:
  "(same_context ctx (audioContext e) \<and> impulseResponseCache e = Some cached
      \<and> \<bar>lastDecayValue e - dec\<bar> < 0.01
    \<longrightarrow> createImpulseResponse ctx dur dec rv (e, h) = (cached, e, h))
   \<and> (same_context ctx (audioContext e)
        \<and> \<bar>lastDecayValue (fst (snd (createImpulseResponse ctx dur dec rv (e, h)))) - dec2\<bar> < 0.01
    \<longrightarrow> fst (createImpulseResponse ctx dur2 dec2 rv2 (snd (createImpulseResponse ctx dur dec rv (e, h))))
          = fst (createImpulseResponse ctx dur dec rv (e, h)))
   \<and> (impulseResponseCache e = None \<or> 0.01 \<le> \<bar>lastDecayValue e - dec\<bar>
        \<or> \<not> same_context ctx (audioContext e)
    \<longrightarrow> fst (createImpulseResponse ctx dur dec rv (e, h)) = fst (synthesize_impulse ctx dur dec rv h)
        \<and> fst (fst (createImpulseResponse ctx dur dec rv (e, h))) = next_id h
        \<and> next_id (snd (snd (createImpulseResponse ctx dur dec rv (e, h)))) = Suc (next_id h))"
proof (intro conjI impI)
  assume "same_context ctx (audioContext e) \<and> impulseResponseCache e = Some cached
      \<and> \<bar>lastDecayValue e - dec\<bar> < 0.01"
  then have "cache_hit ctx dec e = Some cached" by (simp add: cache_hit_Some_iff)
  then show "createImpulseResponse ctx dur dec rv (e, h) = (cached, e, h)"
    by (rule createImpulseResponse_hit)
next
  let ?r = "createImpulseResponse ctx dur dec rv (e, h)"
  assume a: "same_context ctx (audioContext e)
        \<and> \<bar>lastDecayValue (fst (snd ?r)) - dec2\<bar> < 0.01"
  then have "cache_hit ctx dec2 (fst (snd ?r)) = Some (fst ?r)"
    using createImpulseResponse_leaves_cached(1,2) [of ctx e dur dec rv h]
    by (simp add: cache_hit_Some_iff)
  then have "createImpulseResponse ctx dur2 dec2 rv2 (fst (snd ?r), snd (snd ?r))
               = (fst ?r, fst (snd ?r), snd (snd ?r))"
    by (rule createImpulseResponse_hit)
  then show "fst (createImpulseResponse ctx dur2 dec2 rv2 (snd ?r)) = fst ?r" by simp
next
  assume m: "impulseResponseCache e = None \<or> 0.01 \<le> \<bar>lastDecayValue e - dec\<bar>
        \<or> \<not> same_context ctx (audioContext e)"
  then have n: "cache_hit ctx dec e = None" by (auto simp add: cache_hit_None_iff)
  show "fst (createImpulseResponse ctx dur dec rv (e, h)) = fst (synthesize_impulse ctx dur dec rv h)"
    by (simp add: createImpulseResponse_miss [OF n])
  show "fst (fst (createImpulseResponse ctx dur dec rv (e, h))) = next_id h"
    by (simp add: createImpulseResponse_miss [OF n] synthesize_impulse_id)
  show "next_id (snd (snd (createImpulseResponse ctx dur dec rv (e, h)))) = Suc (next_id h)"
    by (simp add: createImpulseResponse_miss [OF n] synthesize_impulse_host)
qed

lemma demo_live_same: "same_context (Live demo_context) (audioContext demo_engine)"
  by (simp add: same_context_def demo_engine_def)

lemma demo_offline_other: "\<not> same_context demo_offline (audioContext e)"
  by (simp add: same_context_def demo_offline_def)

lemma demo_no_cache: "impulseResponseCache demo_engine = None"
  by (simp add: demo_engine_def new_AudioEngine_def)

lemma demo_first_request:
  "createImpulseResponse (Live demo_context) 3 2 False (demo_engine, demo_host) =
     (fst (synthesize_impulse (Live demo_context) 3 2 False demo_host),
      demo_engine \<lparr> impulseResponseCache := Some (fst (synthesize_impulse (Live demo_context) 3 2 False demo_host)),
                    lastDecayValue := 2 \<rparr>,
      snd (synthesize_impulse (Live demo_context) 3 2 False demo_host))"
proof -
  have "cache_hit (Live demo_context) 2 demo_engine = None"
    by (simp add: cache_hit_def demo_no_cache)
  from createImpulseResponse_miss [OF this] demo_live_same show ?thesis by simp
qed

theorem createImpulseResponse_cache_behaviour_witness:
  "fst (fst (createImpulseResponse (Live demo_context) 3 2 False (demo_engine, demo_host))) = 1
   \<and> next_id (snd (snd (createImpulseResponse (Live demo_context) 3 2 False (demo_engine, demo_host)))) = 2
   \<and> fst (createImpulseResponse (Live demo_context) 3 2.005 False
            (snd (createImpulseResponse (Live demo_context) 3 2 False (demo_engine, demo_host))))
       = fst (createImpulseResponse (Live demo_context) 3 2 False (demo_engine, demo_host))
   \<and> createImpulseResponse (Live demo_context) 3 2.005 False
         (demo_engine \<lparr> impulseResponseCache := Some (0, demo_buffer), lastDecayValue := 2 \<rparr>, demo_host)
       = ((0, demo_buffer),
          demo_engine \<lparr> impulseResponseCache := Some (0, demo_buffer), lastDecayValue := 2 \<rparr>, demo_host)"
proof -
  let ?ctx = "Live demo_context"
  let ?e = "demo_engine \<lparr> impulseResponseCache := Some (0, demo_buffer), lastDecayValue := 2 \<rparr>"
  have last: "lastDecayValue (fst (snd (createImpulseResponse ?ctx 3 2 False (demo_engine, demo_host)))) = 2"
    by (simp add: demo_first_request)
  have same: "same_context ?ctx (audioContext ?e)"
    using demo_live_same by simp
  have n: "next_id demo_host = 1" by (simp add: demo_host_def)
  note t1 = createImpulseResponse_cache_behaviour [of ?ctx demo_engine "(0, demo_buffer)" 2 3 False demo_host "2.005" 3 False]
  note t2 = createImpulseResponse_cache_behaviour [of ?ctx ?e "(0, demo_buffer)" "2.005" 3 False demo_host 2 3 False]
  from t1 demo_no_cache
  have "fst (fst (createImpulseResponse ?ctx 3 2 False (demo_engine, demo_host))) = next_id demo_host"
    and "next_id (snd (snd (createImpulseResponse ?ctx 3 2 False (demo_engine, demo_host))))
           = Suc (next_id demo_host)"
    by blast+
  then have a: "fst (fst (createImpulseResponse ?ctx 3 2 False (demo_engine, demo_host))) = 1"
    and b: "next_id (snd (snd (createImpulseResponse ?ctx 3 2 False (demo_engine, demo_host)))) = 2"
    unfolding n by simp_all
  have close: "\<bar>lastDecayValue (fst (snd (createImpulseResponse ?ctx 3 2 False (demo_engine, demo_host))))
                  - 2.005\<bar> < 0.01"
    unfolding last by simp
  from t1 demo_live_same close
  have c: "fst (createImpulseResponse ?ctx 3 2.005 False
                (snd (createImpulseResponse ?ctx 3 2 False (demo_engine, demo_host))))
            = fst (createImpulseResponse ?ctx 3 2 False (demo_engine, demo_host))"
    by blast
  have cached: "impulseResponseCache ?e = Some (0, demo_buffer)" by simp
  have close2: "\<bar>lastDecayValue ?e - 2.005\<bar> < 0.01" by simp
  from t2 same cached close2
  have d: "createImpulseResponse ?ctx 3 2.005 False (?e, demo_host) = ((0, demo_buffer), ?e, demo_host)"
    by blast
  from a b c d show ?thesis by blast
qed

text \<open>
  Claim C5 as stated fails twice. Two requests with the same decay on one offline context
  return two different objects. On the live context, after a buffer was synthesized for
  decay 2, the requests for 2.009 and 2.018 differ by less than 0.01, yet the first returns
  the cached object and the second a new one.
\<close>

theorem createImpulseResponse_same_context_counterexample:
  "fst (createImpulseResponse demo_offline 3 2 False
          (snd (createImpulseResponse demo_offline 3 2 False (demo_engine, demo_host))))
     \<noteq> fst (createImpulseResponse demo_offline 3 2 False (demo_engine, demo_host))
   \<and> \<bar>2.009 - 2.018 :: real\<bar> < 0.01
   \<and> fst (createImpulseResponse (Live demo_context) 3 2.018 False
          (snd (createImpulseResponse (Live demo_context) 3 2.009 False
             (snd (createImpulseResponse (Live demo_context) 3 2 False (demo_engine, demo_host))))))
     \<noteq> fst (createImpulseResponse (Live demo_context) 3 2.009 False
             (snd (createImpulseResponse (Live demo_context) 3 2 False (demo_engine, demo_host))))"
proof -
  let ?s0 = "(demo_engine, demo_host)"
  have off1: "createImpulseResponse demo_offline 3 2 False ?s0 =
      (fst (synthesize_impulse demo_offline 3 2 False demo_host), demo_engine,
       snd (synthesize_impulse demo_offline 3 2 False demo_host))"
    by (rule createImpulseResponse_other_context [OF demo_offline_other])
  have "fst (fst (createImpulseResponse demo_offline 3 2 False
          (snd (createImpulseResponse demo_offline 3 2 False ?s0)))) = Suc (next_id demo_host)"
    unfolding off1
    by (simp add: createImpulseResponse_other_context [OF demo_offline_other]
        synthesize_impulse_id synthesize_impulse_host)
  moreover have "fst (fst (createImpulseResponse demo_offline 3 2 False ?s0)) = next_id demo_host"
    unfolding off1 by (simp add: synthesize_impulse_id)
  ultimately have p1: "fst (createImpulseResponse demo_offline 3 2 False
          (snd (createImpulseResponse demo_offline 3 2 False ?s0)))
     \<noteq> fst (createImpulseResponse demo_offline 3 2 False ?s0)"
    by (metis n_not_Suc_n)
  let ?ctx = "Live demo_context"
  let ?b1 = "fst (synthesize_impulse ?ctx 3 2 False demo_host)"
  let ?e1 = "demo_engine \<lparr> impulseResponseCache := Some ?b1, lastDecayValue := 2 \<rparr>"
  let ?h1 = "snd (synthesize_impulse ?ctx 3 2 False demo_host)"
  have same1: "same_context ?ctx (audioContext ?e1)" using demo_live_same by simp
  have hit: "cache_hit ?ctx 2.009 ?e1 = Some ?b1"
    using same1 by (simp add: cache_hit_Some_iff)
  have r2: "createImpulseResponse ?ctx 3 2.009 False (?e1, ?h1) = (?b1, ?e1, ?h1)"
    by (rule createImpulseResponse_hit [OF hit])
  have miss: "cache_hit ?ctx 2.018 ?e1 = None"
    by (simp add: cache_hit_None_iff)
  have r3: "fst (fst (createImpulseResponse ?ctx 3 2.018 False (?e1, ?h1))) = next_id ?h1"
    unfolding createImpulseResponse_miss [OF miss] by (simp add: synthesize_impulse_id)
  have "next_id ?h1 = Suc (next_id demo_host)" by (simp add: synthesize_impulse_host)
  moreover have "fst ?b1 = next_id demo_host" by (simp add: synthesize_impulse_id)
  ultimately have "fst (createImpulseResponse ?ctx 3 2.018 False (?e1, ?h1)) \<noteq> ?b1"
    using r3 by (metis n_not_Suc_n)
  then have p2: "fst (createImpulseResponse ?ctx 3 2.018 False
          (snd (createImpulseResponse ?ctx 3 2.009 False (snd (createImpulseResponse ?ctx 3 2 False ?s0)))))
     \<noteq> fst (createImpulseResponse ?ctx 3 2.009 False (snd (createImpulseResponse ?ctx 3 2 False ?s0)))"
    unfolding demo_first_request snd_conv r2 fst_conv .
  have p3: "\<bar>2.009 - 2.018 :: real\<bar> < 0.01" by simp
  from p1 p2 p3 show ?thesis by blast
qed

theorem createImpulseResponse_other_context_frame_witness:
  "impulseResponseCache (fst (snd (createImpulseResponse demo_offline 3 2 False
       (demo_engine \<lparr> impulseResponseCache := Some (0, demo_buffer), lastDecayValue := 2.5 \<rparr>, demo_host))))
     = Some (0, demo_buffer)
   \<and> lastDecayValue (fst (snd (createImpulseResponse demo_offline 3 2 False
       (demo_engine \<lparr> impulseResponseCache := Some (0, demo_buffer), lastDecayValue := 2.5 \<rparr>, demo_host))))
     = 2.5"
proof -
  let ?e = "demo_engine \<lparr> impulseResponseCache := Some (0, demo_buffer), lastDecayValue := 2.5 \<rparr>"
  have "\<not> same_context demo_offline (audioContext ?e)" by (rule demo_offline_other)
  from createImpulseResponse_other_context_frame [OF this, of 3 2 False demo_host] show ?thesis by simp
qed

text \<open>
  Claim C2, as the code has it. With no buffer loaded, \<open>renderOffline\<close> fails with the error
  \<open>No Audio\<close>; \<open>play\<close> returns normally and changes nothing: the engine and the host are
  as before and no chain is wired.
\<close>

theorem no_buffer_loaded:
  assumes "audioBuffer e = None"
  shows "renderOffline startRendering st (e, h) = Inl (Error ''No Audio'')
    \<and> play offset st (e, h) = Inr (e, h, None)"
  using assms by (simp add: renderOffline_def render_request_def play_def split: option.splits)

theorem no_buffer_loaded_witness:
  "\<forall>startRendering.
     renderOffline startRendering DEFAULT_SETTINGS (demo_engine \<lparr> audioBuffer := None \<rparr>, demo_host)
       = Inl (Error ''No Audio'')
     \<and> play 0 DEFAULT_SETTINGS (demo_engine \<lparr> audioBuffer := None \<rparr>, demo_host)
       = Inr (demo_engine \<lparr> audioBuffer := None \<rparr>, demo_host, None)"
proof -
  have "audioBuffer (demo_engine \<lparr> audioBuffer := None \<rparr>) = None" by simp
  from no_buffer_loaded [OF this] show ?thesis by blast
qed

text \<open>
  Claim C2 as stated fails for \<open>play\<close>: on a new engine, with no buffer, it returns without
  an error.
\<close>

theorem play_without_buffer_counterexample:
  "audioBuffer new_AudioEngine = None
   \<and> play 0 DEFAULT_SETTINGS (new_AudioEngine, demo_host) = Inr (new_AudioEngine, demo_host, None)"
  by (simp add: play_def new_AudioEngine_def)

section \<open>Properties of the chain\<close>

lemma demo_engine_loaded:
  "audioContext demo_engine = Some demo_context" "audioBuffer demo_engine = Some demo_buffer"
  by (simp_all add: demo_engine_def)

lemma most_positive_single_float_ge: "10 ^ 38 \<le> most_positive_single_float"
  by (simp add: most_positive_single_float_def)

lemma most_positive_single_float_pos: "2 \<le> most_positive_single_float"
  by (simp add: most_positive_single_float_def)

lemma biquad_gain_max_ge: "1520 \<le> biquad_gain_max"
proof -
  have "real 38 \<le> log 10 most_positive_single_float"
    by (rule le_log_of_power) (use most_positive_single_float_ge in simp_all)
  then show ?thesis by (simp add: biquad_gain_max_def)
qed

lemma limited_inside: "lo \<le> v \<Longrightarrow> v \<le> hi \<Longrightarrow> limited lo hi v = v"
  by (simp add: limited_def)

lemma limited_mono: "v \<le> w \<Longrightarrow> limited lo hi v \<le> limited lo hi w"
  by (simp add: limited_def min_def max_def)

lemma limited_unbounded:
  "\<bar>v\<bar> \<le> 2 \<Longrightarrow> limited (- most_positive_single_float) most_positive_single_float v = v"
  using most_positive_single_float_pos by (intro limited_inside) (simp_all add: abs_le_iff)

lemma limited_gain_zero: "limited (- most_positive_single_float) biquad_gain_max 0 = 0"
  using most_positive_single_float_pos biquad_gain_max_ge by (intro limited_inside) linarith+

lemma sorted_map_limited:
  "sorted (map f xs) \<Longrightarrow> sorted (map (\<lambda>x. limited lo hi (f x)) xs)"
  by (induction xs) (auto simp add: limited_mono)

lemma sortedEq_length: "length (sortedEq st) = length (eq st)"
  by (simp add: sortedEq_def)

lemma sortedEq_sorted: "sorted (map frequency (sortedEq st))"
  by (simp add: sortedEq_def)

lemma sortedEq_mset: "mset (sortedEq st) = mset (eq st)"
  by (simp add: sortedEq_def)

lemma make_eqNodes_length: "length (make_eqNodes rate st) = length (eq st)"
  by (simp add: make_eqNodes_def sortedEq_length)

lemma make_eqNodes_nth:
  "i < length (eq st) \<Longrightarrow>
   make_eqNodes rate st ! i = eq_node rate (length (eq st)) i (sortedEq st ! i)"
  by (simp add: make_eqNodes_def sortedEq_length nth_enumerate_eq)

lemma stage_of_eq_node:
  "stage_of (eq_node rate len i band) =
     \<lparr> stage_type = (if i = 0 then Lowshelf else if int i = int len - 1 then Highshelf else Peaking),
       stage_frequency = limited 0 (real rate / 2) (frequency band),
       stage_gain = limited (- most_positive_single_float) biquad_gain_max (gain band),
       stage_Q = 1 \<rparr>"
  using limited_unbounded [of 1]
  by (simp add: stage_of_def eq_node_def set_value_def createBiquadFilter_def param_def
      unbounded_param_def)

lemma stages_nth:
  "i < length (eq st) \<Longrightarrow>
   map stage_of (make_eqNodes rate st) ! i =
     \<lparr> stage_type = (if i = 0 then Lowshelf
                     else if Suc i = length (eq st) then Highshelf else Peaking),
       stage_frequency = limited 0 (real rate / 2) (frequency (sortedEq st ! i)),
       stage_gain = limited (- most_positive_single_float) biquad_gain_max (gain (sortedEq st ! i)),
       stage_Q = 1 \<rparr>"
  by (auto simp add: make_eqNodes_length make_eqNodes_nth stage_of_eq_node)

lemma stages_pairs:
  "map (\<lambda>s. (stage_frequency s, stage_gain s)) (map stage_of (make_eqNodes rate st))
     = map (\<lambda>b. (limited 0 (real rate / 2) (frequency b),
                  limited (- most_positive_single_float) biquad_gain_max (gain b)))
         (sort_key frequency (eq st))"
proof -
  have "map (\<lambda>s. (stage_frequency s, stage_gain s)) (map stage_of (make_eqNodes rate st))
     = map (\<lambda>b. (limited 0 (real rate / 2) (frequency b),
                  limited (- most_positive_single_float) biquad_gain_max (gain b)))
         (sortedEq st)"
    by (rule nth_equalityI)
       (simp_all add: make_eqNodes_length sortedEq_length make_eqNodes_nth stage_of_eq_node)
  then show ?thesis by (simp only: sortedEq_def)
qed

lemma stages_frequencies:
  "map stage_frequency (map stage_of (make_eqNodes rate st))
     = map (\<lambda>b. limited 0 (real rate / 2) (frequency b)) (sortedEq st)"
  by (rule nth_equalityI)
     (simp_all add: make_eqNodes_length sortedEq_length make_eqNodes_nth stage_of_eq_node)

lemma stages_properties:
  fixes rate :: nat and st :: MasteringSettings
  defines "stages \<equiv> map stage_of (make_eqNodes rate st)"
  shows "length stages = length (eq st)"
    and "sorted (map stage_frequency stages)"
    and "1 \<le> length (eq st) \<longrightarrow> stage_type (hd stages) = Lowshelf"
    and "2 \<le> length (eq st) \<longrightarrow> stage_type (last stages) = Highshelf"
    and "length (eq st) = 1 \<longrightarrow> stage_type (last stages) = Lowshelf"
    and "\<forall>i. 0 < i \<and> Suc i < length stages \<longrightarrow> stage_type (stages ! i) = Peaking"
    and "\<forall>s \<in> set stages. stage_Q s = 1"
proof -
  show len: "length stages = length (eq st)"
    by (simp add: stages_def make_eqNodes_length)
  show "sorted (map stage_frequency stages)"
    unfolding stages_def stages_frequencies by (rule sorted_map_limited [OF sortedEq_sorted])
  show "1 \<le> length (eq st) \<longrightarrow> stage_type (hd stages) = Lowshelf"
  proof
    assume "1 \<le> length (eq st)"
    then have pos: "0 < length (eq st)" by linarith
    then have "stages \<noteq> []" using len by auto
    then have h0: "hd stages = stages ! 0" by (simp add: hd_conv_nth)
    have "stage_type (stages ! 0) = Lowshelf"
      unfolding stages_def stages_nth [OF pos] by simp
    then show "stage_type (hd stages) = Lowshelf" by (simp only: h0)
  qed
  have last_nth: "stages \<noteq> [] \<Longrightarrow> last stages = stages ! (length (eq st) - 1)"
    using len by (simp add: last_conv_nth)
  show "2 \<le> length (eq st) \<longrightarrow> stage_type (last stages) = Highshelf"
  proof
    assume two: "2 \<le> length (eq st)"
    then have ne: "stages \<noteq> []" using len by auto
    have lst: "length (eq st) - 1 < length (eq st)"
      and nz: "length (eq st) - 1 \<noteq> 0" and sc: "Suc (length (eq st) - 1) = length (eq st)"
      using two by linarith+
    have "stage_type (stages ! (length (eq st) - 1)) = Highshelf"
      unfolding stages_def stages_nth [OF lst] using nz sc by simp
    then show "stage_type (last stages) = Highshelf" by (simp only: last_nth [OF ne])
  qed
  show "length (eq st) = 1 \<longrightarrow> stage_type (last stages) = Lowshelf"
  proof
    assume one: "length (eq st) = 1"
    then have ne: "stages \<noteq> []" using len by auto
    have lst: "length (eq st) - 1 < length (eq st)" and z: "length (eq st) - 1 = 0"
      using one by simp_all
    have "stage_type (stages ! (length (eq st) - 1)) = Lowshelf"
      unfolding stages_def stages_nth [OF lst] using z by simp
    then show "stage_type (last stages) = Lowshelf" by (simp only: last_nth [OF ne])
  qed
  show "\<forall>i. 0 < i \<and> Suc i < length stages \<longrightarrow> stage_type (stages ! i) = Peaking"
  proof (intro allI impI)
    fix i assume "0 < i \<and> Suc i < length stages"
    then have "i < length (eq st)" and "i \<noteq> 0" and "Suc i \<noteq> length (eq st)"
      using len by simp_all
    with stages_nth [where i = i and st = st and rate = rate]
    show "stage_type (stages ! i) = Peaking"
      by (simp add: stages_def)
  qed
  show "\<forall>s \<in> set stages. stage_Q s = 1"
  proof
    fix s assume "s \<in> set stages"
    then obtain i where "i < length stages" and "s = stages ! i"
      by (auto simp add: in_set_conv_nth)
    with stages_nth [where i = i and st = st and rate = rate] len
    show "stage_Q s = 1" by (simp add: stages_def)
  qed
qed

lemma stages_in_range:
  assumes "\<forall>b \<in> set (eq st). 0 \<le> frequency b \<and> frequency b \<le> real rate / 2
             \<and> - most_positive_single_float \<le> gain b \<and> gain b \<le> biquad_gain_max"
  shows "map (\<lambda>s. (stage_frequency s, stage_gain s)) (map stage_of (make_eqNodes rate st))
           = map (\<lambda>b. (frequency b, gain b)) (sort_key frequency (eq st))"
  unfolding stages_pairs
  by (rule map_cong [OF refl]) (use assms in \<open>simp add: limited_inside\<close>)

lemma stages_in_range_mset:
  assumes "\<forall>b \<in> set (eq st). 0 \<le> frequency b \<and> frequency b \<le> real rate / 2
             \<and> - most_positive_single_float \<le> gain b \<and> gain b \<le> biquad_gain_max"
  shows "mset (map (\<lambda>s. (stage_frequency s, stage_gain s)) (map stage_of (make_eqNodes rate st)))
           = mset (map (\<lambda>b. (frequency b, gain b)) (eq st))"
proof -
  have "mset (sort_key frequency (eq st)) = mset (eq st)" by simp
  then have "mset (map (\<lambda>b. (frequency b, gain b)) (sort_key frequency (eq st)))
          = mset (map (\<lambda>b. (frequency b, gain b)) (eq st))"
    by (metis mset_map)
  then show ?thesis unfolding stages_in_range [OF assms] .
qed

lemma stages_band_gain:
  assumes r: "\<forall>b \<in> set (eq st). 0 \<le> frequency b \<and> frequency b \<le> real rate / 2
             \<and> - most_positive_single_float \<le> gain b \<and> gain b \<le> biquad_gain_max"
    and d: "distinct (map frequency (eq st))"
    and s: "s \<in> set (map stage_of (make_eqNodes rate st))"
    and b: "b \<in> set (eq st)" and f: "frequency b = stage_frequency s"
  shows "gain b = stage_gain s"
proof -
  have "(stage_frequency s, stage_gain s)
          \<in> set (map (\<lambda>s. (stage_frequency s, stage_gain s)) (map stage_of (make_eqNodes rate st)))"
    using s by (auto simp del: map_map)
  then have "(stage_frequency s, stage_gain s)
          \<in> set (map (\<lambda>b. (frequency b, gain b)) (sort_key frequency (eq st)))"
    unfolding stages_in_range [OF r] .
  then obtain b' where b': "b' \<in> set (eq st)"
    and e: "frequency b' = stage_frequency s" "gain b' = stage_gain s"
    by auto
  have "inj_on frequency (set (eq st))" using d by (simp add: distinct_map)
  then have "b = b'" using b b' f e(1) by (metis inj_onD)
  with e(2) show ?thesis by simp
qed

lemma eq_stack_of_stages:
  assumes m: "map stage_of nodes = map stage_of (make_eqNodes rate st)"
  shows "length (map stage_of nodes) = length (eq st)
           \<and> sorted (map stage_frequency (map stage_of nodes))
           \<and> (1 \<le> length (eq st) \<longrightarrow> stage_type (hd (map stage_of nodes)) = Lowshelf)
           \<and> (2 \<le> length (eq st) \<longrightarrow> stage_type (last (map stage_of nodes)) = Highshelf)
           \<and> (length (eq st) = 1 \<longrightarrow> stage_type (last (map stage_of nodes)) = Lowshelf)
           \<and> (\<forall>i. 0 < i \<and> Suc i < length nodes \<longrightarrow> stage_type (map stage_of nodes ! i) = Peaking)
           \<and> (\<forall>s \<in> set (map stage_of nodes). stage_Q s = 1)
           \<and> map (\<lambda>s. (stage_frequency s, stage_gain s)) (map stage_of nodes)
               = map (\<lambda>b. (limited 0 (real rate / 2) (frequency b),
                            limited (- most_positive_single_float) biquad_gain_max (gain b)))
                   (sort_key frequency (eq st))
           \<and> ((\<forall>b \<in> set (eq st). 0 \<le> frequency b \<and> frequency b \<le> real rate / 2
                   \<and> - most_positive_single_float \<le> gain b \<and> gain b \<le> biquad_gain_max) \<longrightarrow>
                mset (map (\<lambda>s. (stage_frequency s, stage_gain s)) (map stage_of nodes))
                   = mset (map (\<lambda>b. (frequency b, gain b)) (eq st))
                \<and> (distinct (map frequency (eq st)) \<longrightarrow>
                    (\<forall>s \<in> set (map stage_of nodes). \<forall>b \<in> set (eq st).
                        frequency b = stage_frequency s \<longrightarrow> gain b = stage_gain s)))"
proof -
  have l: "length nodes = length (map stage_of (make_eqNodes rate st))"
    using m by (metis length_map)
  note p = stages_properties [where rate = rate and st = st]
  show ?thesis
    unfolding m l
    using p stages_pairs [where rate = rate and st = st]
      stages_in_range_mset [where rate = rate and st = st]
      stages_band_gain [where rate = rate and st = st]
    by blast
qed

lemma createImpulseResponse_engine_form:
  "\<exists>c d. fst (snd (createImpulseResponse ctx dur dec rv (e, h)))
            = e \<lparr> impulseResponseCache := c, lastDecayValue := d \<rparr>"
proof (cases "cache_hit ctx dec e")
  case None
  show ?thesis
  proof (cases "same_context ctx (audioContext e)")
    case True
    with None have "fst (snd (createImpulseResponse ctx dur dec rv (e, h)))
        = e \<lparr> impulseResponseCache := Some (fst (synthesize_impulse ctx dur dec rv h)), lastDecayValue := dec \<rparr>"
      by (simp add: createImpulseResponse_miss)
    then show ?thesis by (rule_tac x = "Some (fst (synthesize_impulse ctx dur dec rv h))" in exI) (rule exI)
  next
    case False
    have id_form: "e = e \<lparr> impulseResponseCache := impulseResponseCache e, lastDecayValue := lastDecayValue e \<rparr>"
      by simp
    with None False have "fst (snd (createImpulseResponse ctx dur dec rv (e, h))) = e"
      by (simp add: createImpulseResponse_miss)
    then show ?thesis using id_form by (intro exI [of _ "impulseResponseCache e"] exI [of _ "lastDecayValue e"]) simp
  qed
next
  case (Some cached)
  from Some have "fst (snd (createImpulseResponse ctx dur dec rv (e, h))) = e"
    by (simp add: createImpulseResponse_hit)
  then show ?thesis by (intro exI [of _ "impulseResponseCache e"] exI [of _ "lastDecayValue e"]) simp
qed

lemma setupGraph_form:
  assumes "audioContext e = Some ctx" and "audioBuffer e = Some buf"
  shows "\<exists>c d imp. fst (setupGraph st (e, h)) =
           updateSettings st
             ((attach_reverb (context_sampleRate ctx) imp
                 ((create_nodes (context_sampleRate ctx) st (e \<lparr> eqNodes := [] \<rparr>))
                    \<lparr> impulseResponseCache := c, lastDecayValue := d \<rparr>))
                \<lparr> eqNodes := make_eqNodes (context_sampleRate ctx) st \<rparr>)"
proof -
  let ?r = "context_sampleRate ctx"
  obtain c d where f:
    "fst (snd (createImpulseResponse (Live ctx) 3 (decay (reverb st)) False
                 (create_nodes ?r st (e \<lparr> eqNodes := [] \<rparr>), h)))
       = (create_nodes ?r st (e \<lparr> eqNodes := [] \<rparr>)) \<lparr> impulseResponseCache := c, lastDecayValue := d \<rparr>"
    using createImpulseResponse_engine_form by blast
  have "fst (setupGraph st (e, h)) =
          updateSettings st
             ((attach_reverb ?r
                 (snd (fst (createImpulseResponse (Live ctx) 3 (decay (reverb st)) False
                              (create_nodes ?r st (e \<lparr> eqNodes := [] \<rparr>), h))))
                 (fst (snd (createImpulseResponse (Live ctx) 3 (decay (reverb st)) False
                              (create_nodes ?r st (e \<lparr> eqNodes := [] \<rparr>), h)))))
                \<lparr> eqNodes := make_eqNodes ?r st \<rparr>)"
    using assms by (simp add: setupGraph_def Let_def case_prod_beta)
  then have "fst (setupGraph st (e, h)) =
          updateSettings st
             ((attach_reverb ?r
                 (snd (fst (createImpulseResponse (Live ctx) 3 (decay (reverb st)) False
                              (create_nodes ?r st (e \<lparr> eqNodes := [] \<rparr>), h))))
                 ((create_nodes ?r st (e \<lparr> eqNodes := [] \<rparr>))
                    \<lparr> impulseResponseCache := c, lastDecayValue := d \<rparr>))
                \<lparr> eqNodes := make_eqNodes ?r st \<rparr>)"
    by (simp only: f)
  then show ?thesis by (intro exI)
qed

lemma update_reverb_mix_kept:
  "audioContext (update_reverb_mix st now e) = audioContext e"
  "audioBuffer (update_reverb_mix st now e) = audioBuffer e"
  "sourceNode (update_reverb_mix st now e) = sourceNode e"
  "reverbNode (update_reverb_mix st now e) = reverbNode e"
  "reverbToneNode (update_reverb_mix st now e) = reverbToneNode e"
  "analyzerNode (update_reverb_mix st now e) = analyzerNode e"
  "impulseResponseCache (update_reverb_mix st now e) = impulseResponseCache e"
  "lastDecayValue (update_reverb_mix st now e) = lastDecayValue e"
  "startTime (update_reverb_mix st now e) = startTime e"
  "pausedAt (update_reverb_mix st now e) = pausedAt e"
  "isPlaying (update_reverb_mix st now e) = isPlaying e"
  "eqNodes (update_reverb_mix st now e) = eqNodes e"
  "gainNode (update_reverb_mix st now e) = gainNode e"
  "compressorNode (update_reverb_mix st now e) = compressorNode e"
  "msSideGainNode (update_reverb_mix st now e) = msSideGainNode e"
  "stereoBassNode (update_reverb_mix st now e) = stereoBassNode e"
  "airNode (update_reverb_mix st now e) = airNode e"
  "bodyNode (update_reverb_mix st now e) = bodyNode e"
  "dynamicBassNode (update_reverb_mix st now e) = dynamicBassNode e"
  "limiterNode (update_reverb_mix st now e) = limiterNode e"
  "saturationNode (update_reverb_mix st now e) = saturationNode e"
  "softClipNode (update_reverb_mix st now e) = softClipNode e"
  by (simp_all add: update_reverb_mix_def split: option.splits)

lemma update_reverb_mix_gains:
  "wetGainNode e = Some wet \<Longrightarrow> dryGainNode e = Some dry \<Longrightarrow>
     wetGainNode (update_reverb_mix st now e)
       = Some (wet \<lparr> gain_param := ramp_to (mix (reverb st)) now (gain_param wet) \<rparr>)
     \<and> dryGainNode (update_reverb_mix st now e)
       = Some (dry \<lparr> gain_param := ramp_to (1 - mix (reverb st)) now (gain_param dry) \<rparr>)"
  by (simp add: update_reverb_mix_def)

lemma updateSettings_kept:
  "audioContext (updateSettings st e) = audioContext e"
  "audioBuffer (updateSettings st e) = audioBuffer e"
  "sourceNode (updateSettings st e) = sourceNode e"
  "reverbNode (updateSettings st e) = reverbNode e"
  "reverbToneNode (updateSettings st e) = reverbToneNode e"
  "analyzerNode (updateSettings st e) = analyzerNode e"
  "impulseResponseCache (updateSettings st e) = impulseResponseCache e"
  "lastDecayValue (updateSettings st e) = lastDecayValue e"
  "startTime (updateSettings st e) = startTime e"
  "pausedAt (updateSettings st e) = pausedAt e"
  "isPlaying (updateSettings st e) = isPlaying e"
  by (cases "audioContext e"; simp add: updateSettings_def Let_def update_reverb_mix_kept)+

lemma updateSettings_nodes:
  assumes "audioContext e = Some ctx"
  shows "eqNodes (updateSettings st e)
           = map (update_eq_node st (currentTime ctx)) (enumerate 0 (eqNodes e))"
    and "gainNode (updateSettings st e) = map_option
           (\<lambda>n. n \<lparr> gain_param := ramp_to (1.0 + masterGain st) (currentTime ctx) (gain_param n) \<rparr>)
           (gainNode e)"
    and "msSideGainNode (updateSettings st e) = map_option
           (\<lambda>n. n \<lparr> gain_param := ramp_to (1.0 + stereoWidth st) (currentTime ctx) (gain_param n) \<rparr>)
           (msSideGainNode e)"
    and "stereoBassNode (updateSettings st e) = map_option
           (\<lambda>n. n \<lparr> filter_gain := ramp_to (stereoBass st) (currentTime ctx) (filter_gain n) \<rparr>)
           (stereoBassNode e)"
    and "airNode (updateSettings st e) = map_option
           (\<lambda>n. n \<lparr> filter_gain := ramp_to (air st) (currentTime ctx) (filter_gain n) \<rparr>) (airNode e)"
    and "bodyNode (updateSettings st e) = map_option
           (\<lambda>n. n \<lparr> filter_gain := ramp_to (body st) (currentTime ctx) (filter_gain n) \<rparr>) (bodyNode e)"
    and "dynamicBassNode (updateSettings st e) = map_option
           (\<lambda>n. n \<lparr> filter_gain := ramp_to (dynamicBass st) (currentTime ctx) (filter_gain n) \<rparr>)
           (dynamicBassNode e)"
    and "limiterNode (updateSettings st e) = map_option
           (\<lambda>n. n \<lparr> comp_threshold := ramp_to (ceiling_db st) (currentTime ctx) (comp_threshold n) \<rparr>)
           (limiterNode e)"
    and "saturationNode (updateSettings st e) = map_option
           (\<lambda>n. n \<lparr> curve := Some (makeDistortionCurve (saturation st)) \<rparr>) (saturationNode e)"
    and "softClipNode (updateSettings st e) = map_option
           (\<lambda>n. n \<lparr> curve := Some (makeSoftClipCurve (softClip st)) \<rparr>) (softClipNode e)"
    and "compressorNode (updateSettings st e) = map_option
           (\<lambda>n. n \<lparr> comp_threshold := ramp_to (threshold (compressor st)) (currentTime ctx) (comp_threshold n),
                    comp_ratio := ramp_to (max 1 (ratio (compressor st))) (currentTime ctx) (comp_ratio n),
                    comp_attack := ramp_to (attack (compressor st)) (currentTime ctx) (comp_attack n),
                    comp_release := ramp_to (release (compressor st)) (currentTime ctx) (comp_release n) \<rparr>)
           (compressorNode e)"
  using assms
  by (simp_all add: updateSettings_def Let_def update_reverb_mix_kept)

lemma updateSettings_gains:
  assumes "audioContext e = Some ctx" and "wetGainNode e = Some wet" and "dryGainNode e = Some dry"
  shows "wetGainNode (updateSettings st e)
       = Some (wet \<lparr> gain_param := ramp_to (mix (reverb st)) (currentTime ctx) (gain_param wet) \<rparr>)"
    and "dryGainNode (updateSettings st e)
       = Some (dry \<lparr> gain_param := ramp_to (1 - mix (reverb st)) (currentTime ctx) (gain_param dry) \<rparr>)"
  using assms
  by (simp_all add: updateSettings_def Let_def update_reverb_mix_gains)

lemma setupGraph_nodes:
  fixes st :: MasteringSettings and h :: Host
  assumes "audioContext e = Some ctx" and "audioBuffer e = Some buf"
  defines "E \<equiv> fst (setupGraph st (e, h))"
  defines "now \<equiv> currentTime ctx"
  defines "rate \<equiv> context_sampleRate ctx"
  shows "audioContext E = Some ctx"
    and "eqNodes E = map (update_eq_node st now) (enumerate 0 (make_eqNodes rate st))"
    and "msSideGainNode E = Some ((make_msSideGain st)
           \<lparr> gain_param := ramp_to (1.0 + stereoWidth st) now (gain_param (make_msSideGain st)) \<rparr>)"
    and "stereoBassNode E = Some ((make_stereoBassNode rate st)
           \<lparr> filter_gain := ramp_to (stereoBass st) now (filter_gain (make_stereoBassNode rate st)) \<rparr>)"
    and "dynamicBassNode E \<noteq> None" and "bodyNode E \<noteq> None" and "saturationNode E \<noteq> None"
    and "compressorNode E \<noteq> None" and "dryGainNode E \<noteq> None" and "reverbToneNode E \<noteq> None"
    and "reverbNode E \<noteq> None" and "wetGainNode E \<noteq> None" and "airNode E \<noteq> None"
    and "gainNode E \<noteq> None" and "softClipNode E \<noteq> None" and "limiterNode E \<noteq> None"
    and "analyzerNode E \<noteq> None"
proof -
  obtain c d imp where form: "E = updateSettings st
             ((attach_reverb rate imp
                 ((create_nodes rate st (e \<lparr> eqNodes := [] \<rparr>))
                    \<lparr> impulseResponseCache := c, lastDecayValue := d \<rparr>))
                \<lparr> eqNodes := make_eqNodes rate st \<rparr>)"
    unfolding E_def rate_def using setupGraph_form [OF assms(1,2)] by blast
  let ?X = "(attach_reverb rate imp
                 ((create_nodes rate st (e \<lparr> eqNodes := [] \<rparr>))
                    \<lparr> impulseResponseCache := c, lastDecayValue := d \<rparr>))
                \<lparr> eqNodes := make_eqNodes rate st \<rparr>"
  have cx: "audioContext ?X = Some ctx"
    using assms(1) by (simp add: attach_reverb_def create_nodes_def)
  have wet: "wetGainNode ?X = Some createGain" and dry: "dryGainNode ?X = Some createGain"
    by (simp_all add: attach_reverb_def)
  note n = updateSettings_nodes [OF cx, of st] updateSettings_gains [OF cx wet dry, of st]
  show "audioContext E = Some ctx"
    unfolding form updateSettings_kept by (rule cx)
  show "eqNodes E = map (update_eq_node st now) (enumerate 0 (make_eqNodes rate st))"
    unfolding form n now_def by simp
  show "msSideGainNode E = Some ((make_msSideGain st)
           \<lparr> gain_param := ramp_to (1.0 + stereoWidth st) now (gain_param (make_msSideGain st)) \<rparr>)"
    unfolding form n now_def by (simp add: attach_reverb_def create_nodes_def)
  show "stereoBassNode E = Some ((make_stereoBassNode rate st)
           \<lparr> filter_gain := ramp_to (stereoBass st) now (filter_gain (make_stereoBassNode rate st)) \<rparr>)"
    unfolding form n now_def by (simp add: attach_reverb_def create_nodes_def)
  show "dynamicBassNode E \<noteq> None" "bodyNode E \<noteq> None" "saturationNode E \<noteq> None"
    "compressorNode E \<noteq> None" "airNode E \<noteq> None"
    "gainNode E \<noteq> None" "softClipNode E \<noteq> None" "limiterNode E \<noteq> None"
    unfolding form n by (simp_all add: attach_reverb_def create_nodes_def)
  show "dryGainNode E \<noteq> None" "wetGainNode E \<noteq> None"
    unfolding form n by simp_all
  show "reverbToneNode E \<noteq> None" "reverbNode E \<noteq> None" "analyzerNode E \<noteq> None"
    unfolding form updateSettings_kept by (simp_all add: attach_reverb_def create_nodes_def)
qed

lemma live_graph_Some:
  assumes "dynamicBassNode e \<noteq> None" and "bodyNode e \<noteq> None" and "saturationNode e \<noteq> None"
    and "compressorNode e \<noteq> None" and "dryGainNode e \<noteq> None" and "reverbToneNode e \<noteq> None"
    and "reverbNode e \<noteq> None" and "wetGainNode e \<noteq> None" and "airNode e \<noteq> None"
    and "stereoBassNode e = Some sb" and "msSideGainNode e = Some msg"
    and "gainNode e \<noteq> None" and "softClipNode e \<noteq> None" and "limiterNode e \<noteq> None"
    and "analyzerNode e \<noteq> None"
  shows "\<exists>g. live_graph e src = Some g \<and> g_midSide g = make_midSide \<and> g_eqNodes g = eqNodes e
           \<and> g_stereoBass g = sb \<and> g_msSideGain g = msg \<and> g_source g = src"
  using assms by (auto simp add: live_graph_def)

lemma param_value_ramp_to: "param_value (ramp_to v t p) = param_value p"
  by (simp add: ramp_to_def setTargetAtTime_def cancelScheduledValues_def)

lemma stage_of_update_eq_node: "stage_of (update_eq_node st now (i, n)) = stage_of n"
  by (simp add: update_eq_node_def stage_of_def param_value_ramp_to split: option.splits)

lemma stages_after_update:
  "map stage_of (map (update_eq_node st now) (enumerate 0 nodes)) = map stage_of nodes"
  by (rule nth_equalityI) (simp_all add: nth_enumerate_eq stage_of_update_eq_node)

lemma live_stages:
  assumes "audioContext e = Some ctx" and "audioBuffer e = Some buf"
  shows "map stage_of (eqNodes (fst (setupGraph st (e, h))))
           = map stage_of (make_eqNodes (context_sampleRate ctx) st)"
  unfolding setupGraph_nodes(2) [OF assms] by (rule stages_after_update)

lemma offline_stages:
  "g_eqNodes (offline_graph st source impulse) = make_eqNodes (sampleRate source) st"
  by (simp add: offline_graph_def)

lemma render_request_result:
  assumes "audioBuffer e = Some buf"
  shows "render_request st (e, h) =
           Inr ((\<lparr> offline_channels = 2, offline_length = buffer_length buf,
                    offline_sampleRate = sampleRate buf \<rparr>,
                 offline_graph st buf
                     (snd (fst (synthesize_impulse
                        (Offline \<lparr> offline_channels = 2, offline_length = buffer_length buf,
                                   offline_sampleRate = sampleRate buf \<rparr>)
                        3 (decay (reverb st)) False h)))),
                e,
                snd (synthesize_impulse
                        (Offline \<lparr> offline_channels = 2, offline_length = buffer_length buf,
                                   offline_sampleRate = sampleRate buf \<rparr>)
                        3 (decay (reverb st)) False h))"
proof -
  let ?ctx = "Offline \<lparr> offline_channels = 2, offline_length = buffer_length buf,
                    offline_sampleRate = sampleRate buf \<rparr>"
  have o: "\<not> same_context ?ctx (audioContext e)" by (simp add: same_context_def)
  show ?thesis
    using assms
    by (simp add: render_request_def Let_def createImpulseResponse_other_context [OF o])
qed

lemma renderOffline_result:
  assumes "audioBuffer e = Some buf"
  shows "renderOffline startRendering st (e, h) =
           Inr (startRendering
                  \<lparr> offline_channels = 2, offline_length = buffer_length buf,
                    offline_sampleRate = sampleRate buf \<rparr>
                  (offline_graph st buf
                     (snd (fst (synthesize_impulse
                        (Offline \<lparr> offline_channels = 2, offline_length = buffer_length buf,
                                   offline_sampleRate = sampleRate buf \<rparr>)
                        3 (decay (reverb st)) False h)))),
                e,
                snd (synthesize_impulse
                        (Offline \<lparr> offline_channels = 2, offline_length = buffer_length buf,
                                   offline_sampleRate = sampleRate buf \<rparr>)
                        3 (decay (reverb st)) False h))"
  by (simp add: renderOffline_def render_request_result [OF assms])

text \<open>The EQ stack that \<open>renderOffline\<close> hands to the renderer is the one of \<open>offline_graph\<close>.\<close>

lemma renderOffline_passes_graph:
  assumes "audioBuffer e = Some buf"
  shows "\<exists>impulse h'. \<forall>startRendering. renderOffline startRendering st (e, h) =
           Inr (startRendering
                  \<lparr> offline_channels = 2, offline_length = buffer_length buf,
                    offline_sampleRate = sampleRate buf \<rparr>
                  (offline_graph st buf impulse), e, h')"
  using renderOffline_result [OF assms] by blast

text \<open>
  Claim C6, as stated, fails in two places. With a single band the only stage is a
  low-shelf, on both paths: the test for index 0 comes before the test for the last index,
  so the last stage is not a high-shelf. And the frequency of a stage is the frequency of
  its band only up to the Nyquist frequency of the context: at 44100 Hz the default bands at
  26000 Hz and 32000 Hz both give a stage at 22050 Hz, a frequency that no band has.
\<close>

theorem eq_stack_single_band_counterexample:
  "map stage_of (g_eqNodes (offline_graph single_band_settings demo_buffer demo_buffer))
     = [\<lparr> stage_type = Lowshelf, stage_frequency = 1000, stage_gain = 2, stage_Q = 1 \<rparr>]
   \<and> map stage_of (eqNodes (fst (setupGraph single_band_settings (demo_engine, demo_host))))
     = [\<lparr> stage_type = Lowshelf, stage_frequency = 1000, stage_gain = 2, stage_Q = 1 \<rparr>]
   \<and> stage_type (last (map stage_of
        (g_eqNodes (offline_graph single_band_settings demo_buffer demo_buffer)))) \<noteq> Highshelf
   \<and> map frequency (eq DEFAULT_SETTINGS)
     = [30, 60, 120, 240, 500, 1000, 2000, 4000, 8000, 12000, 16000, 20000, 26000, 32000]
   \<and> map stage_frequency (map stage_of
        (g_eqNodes (offline_graph DEFAULT_SETTINGS demo_buffer demo_buffer)))
     = [30, 60, 120, 240, 500, 1000, 2000, 4000, 8000, 12000, 16000, 20000, 22050, 22050]"
proof -
  have g: "limited (- most_positive_single_float) biquad_gain_max 2 = 2"
    using most_positive_single_float_pos biquad_gain_max_ge by (intro limited_inside) linarith+
  have f: "limited 0 22050 1000 = 1000"
    by (simp add: limited_def)
  have one: "map stage_of (make_eqNodes 44100 single_band_settings)
     = [\<lparr> stage_type = Lowshelf, stage_frequency = 1000, stage_gain = 2, stage_Q = 1 \<rparr>]"
    by (simp add: make_eqNodes_def sortedEq_def stage_of_eq_node single_band_settings_def g f)
  have r: "sampleRate demo_buffer = 44100" "context_sampleRate demo_context = 44100"
    by (simp_all add: demo_buffer_def demo_context_def)
  have off: "map stage_of (g_eqNodes (offline_graph single_band_settings demo_buffer demo_buffer))
     = [\<lparr> stage_type = Lowshelf, stage_frequency = 1000, stage_gain = 2, stage_Q = 1 \<rparr>]"
    unfolding offline_stages r by (rule one)
  have live: "map stage_of (eqNodes (fst (setupGraph single_band_settings (demo_engine, demo_host))))
     = [\<lparr> stage_type = Lowshelf, stage_frequency = 1000, stage_gain = 2, stage_Q = 1 \<rparr>]"
    unfolding live_stages [OF demo_engine_loaded] r by (rule one)
  have fr: "map frequency (eq DEFAULT_SETTINGS)
     = [30, 60, 120, 240, 500, 1000, 2000, 4000, 8000, 12000, 16000, 20000, 26000, 32000]"
    by (simp add: DEFAULT_SETTINGS_def DEFAULT_EQ_FREQUENCIES_def)
  have "sorted (map frequency (eq DEFAULT_SETTINGS))" unfolding fr by simp
  then have so: "sortedEq DEFAULT_SETTINGS = eq DEFAULT_SETTINGS"
    unfolding sortedEq_def by (rule sort_key_id_if_sorted)
  have "map stage_frequency (map stage_of (make_eqNodes 44100 DEFAULT_SETTINGS))
          = map (limited 0 (real 44100 / 2)) (map frequency (eq DEFAULT_SETTINGS))"
    unfolding stages_frequencies so by simp
  also have "\<dots> = [30, 60, 120, 240, 500, 1000, 2000, 4000, 8000, 12000, 16000, 20000, 22050, 22050]"
    unfolding fr by (simp add: limited_def)
  finally have ny: "map stage_frequency (map stage_of
        (g_eqNodes (offline_graph DEFAULT_SETTINGS demo_buffer demo_buffer)))
     = [30, 60, 120, 240, 500, 1000, 2000, 4000, 8000, 12000, 16000, 20000, 22050, 22050]"
    unfolding offline_stages r .
  have "stage_type (last (map stage_of
        (g_eqNodes (offline_graph single_band_settings demo_buffer demo_buffer)))) \<noteq> Highshelf"
    unfolding off by simp
  with off live fr ny show ?thesis by (intro conjI)
qed

text \<open>
  Claim C6, amended. For every settings value, with its EQ bands in any order and with any
  values, the EQ stage list of the chain that \<open>renderOffline\<close> hands to the renderer and the one
  \<open>setupGraph\<close> stores in the engine both have one stage per band, are sorted by ascending
  frequency and have Q = 1 throughout; the first stage is a low-shelf, the last one a
  high-shelf when there are at least two bands (a low-shelf when there is one), and every
  stage in between is peaking. Stage \<open>i\<close> belongs to the band at position \<open>i\<close> in ascending
  order of frequency, whatever the index of that band in the array: it has that band's
  frequency, limited to the range from 0 to half the sample rate of its context, and that
  band's gain, limited to the range of the gain parameter. When all bands lie inside these
  ranges, the pairs of frequency and gain of the stages are those of the bands, and with
  distinct frequencies each stage has the gain of the band of its frequency.
\<close>

theorem eq_stack_ordering_by_frequency:
  assumes "audioContext e = Some ctx" and "audioBuffer e = Some buf"
  shows "\<forall>(rate, nodes) \<in> {(sampleRate source, g_eqNodes (offline_graph st source impulse)),
                            (context_sampleRate ctx, eqNodes (fst (setupGraph st (e, h))))}.
           length (map stage_of nodes) = length (eq st)
           \<and> sorted (map stage_frequency (map stage_of nodes))
           \<and> (1 \<le> length (eq st) \<longrightarrow> stage_type (hd (map stage_of nodes)) = Lowshelf)
           \<and> (2 \<le> length (eq st) \<longrightarrow> stage_type (last (map stage_of nodes)) = Highshelf)
           \<and> (length (eq st) = 1 \<longrightarrow> stage_type (last (map stage_of nodes)) = Lowshelf)
           \<and> (\<forall>i. 0 < i \<and> Suc i < length nodes \<longrightarrow> stage_type (map stage_of nodes ! i) = Peaking)
           \<and> (\<forall>s \<in> set (map stage_of nodes). stage_Q s = 1)
           \<and> map (\<lambda>s. (stage_frequency s, stage_gain s)) (map stage_of nodes)
               = map (\<lambda>b. (limited 0 (real rate / 2) (frequency b),
                            limited (- most_positive_single_float) biquad_gain_max (gain b)))
                   (sort_key frequency (eq st))
           \<and> ((\<forall>b \<in> set (eq st). 0 \<le> frequency b \<and> frequency b \<le> real rate / 2
                   \<and> - most_positive_single_float \<le> gain b \<and> gain b \<le> biquad_gain_max) \<longrightarrow>
                mset (map (\<lambda>s. (stage_frequency s, stage_gain s)) (map stage_of nodes))
                   = mset (map (\<lambda>b. (frequency b, gain b)) (eq st))
                \<and> (distinct (map frequency (eq st)) \<longrightarrow>
                    (\<forall>s \<in> set (map stage_of nodes). \<forall>b \<in> set (eq st).
                        frequency b = stage_frequency s \<longrightarrow> gain b = stage_gain s)))"
proof (intro ballI, goal_cases)
  case (1 p)
  have off: "map stage_of (g_eqNodes (offline_graph st source impulse))
               = map stage_of (make_eqNodes (sampleRate source) st)"
    by (simp only: offline_stages)
  note live = live_stages [OF assms, of st h]
  from 1 consider "p = (sampleRate source, g_eqNodes (offline_graph st source impulse))"
    | "p = (context_sampleRate ctx, eqNodes (fst (setupGraph st (e, h))))"
    by blast
  then show ?case
  proof cases
    case 1
    show ?thesis unfolding 1 prod.case by (rule eq_stack_of_stages [OF off])
  next
    case 2
    show ?thesis unfolding 2 prod.case by (rule eq_stack_of_stages [OF live])
  qed
qed

lemma three_stage_shape:
  fixes s :: "Stage list"
  assumes "length s = 3" and "stage_type (hd s) = Lowshelf" and "stage_type (last s) = Highshelf"
    and "stage_type (s ! 1) = Peaking" and "\<forall>x \<in> set s. stage_Q x = 1"
    and "map (\<lambda>s. (stage_frequency s, stage_gain s)) s = [(60, - 1), (1000, 2), (8000, 3)]"
  shows "map (\<lambda>s. (stage_type s, stage_frequency s, stage_gain s, stage_Q s)) s
       = [(Lowshelf, 60, - 1, 1), (Peaking, 1000, 2, 1), (Highshelf, 8000, 3, 1)]"
proof -
  from assms(6) obtain a b c where s: "s = [a, b, c]"
    by (auto simp add: map_eq_Cons_conv)
  from assms show ?thesis unfolding s by simp
qed

lemma shuffled_pairs:
  "map (\<lambda>b. (limited 0 (real (44100::nat) / 2) (frequency b),
                  limited (- most_positive_single_float) biquad_gain_max (gain b)))
         (sort_key frequency (eq shuffled_settings)) = [(60, - 1), (1000, 2), (8000, 3)]"
proof -
  have g: "limited (- most_positive_single_float) biquad_gain_max (- 1) = - 1"
    "limited (- most_positive_single_float) biquad_gain_max 2 = 2"
    "limited (- most_positive_single_float) biquad_gain_max 3 = 3"
    using most_positive_single_float_pos biquad_gain_max_ge by (intro limited_inside; linarith)+
  have f: "limited 0 22050 60 = 60" "limited 0 22050 1000 = 1000" "limited 0 22050 8000 = 8000"
    by (simp_all add: limited_def)
  show ?thesis by (simp add: shuffled_settings_def g f)
qed

theorem eq_stack_ordering_by_frequency_witness:
  "map frequency (eq shuffled_settings) = [1000, 60, 8000]
   \<and> map (\<lambda>s. (stage_type s, stage_frequency s, stage_gain s, stage_Q s))
        (map stage_of (eqNodes (fst (setupGraph shuffled_settings (demo_engine, demo_host)))))
       = [(Lowshelf, 60, - 1, 1), (Peaking, 1000, 2, 1), (Highshelf, 8000, 3, 1)]
   \<and> map (\<lambda>s. (stage_type s, stage_frequency s, stage_gain s, stage_Q s))
        (map stage_of (g_eqNodes (offline_graph shuffled_settings demo_buffer demo_buffer)))
       = [(Lowshelf, 60, - 1, 1), (Peaking, 1000, 2, 1), (Highshelf, 8000, 3, 1)]
   \<and> mset (map (\<lambda>s. (stage_frequency s, stage_gain s))
        (map stage_of (eqNodes (fst (setupGraph shuffled_settings (demo_engine, demo_host))))))
       = mset (map (\<lambda>b. (frequency b, gain b)) (eq shuffled_settings))"
proof -
  let ?L = "eqNodes (fst (setupGraph shuffled_settings (demo_engine, demo_host)))"
  let ?O = "g_eqNodes (offline_graph shuffled_settings demo_buffer demo_buffer)"
  note t = eq_stack_ordering_by_frequency [OF demo_engine_loaded, where source = demo_buffer
      and impulse = demo_buffer and h = demo_host and st = shuffled_settings]
  have l3: "length (eq shuffled_settings) = 3"
    and fr: "map frequency (eq shuffled_settings) = [1000, 60, 8000]"
    by (simp_all add: shuffled_settings_def)
  have one: "1 \<le> length (eq shuffled_settings)" and two: "2 \<le> length (eq shuffled_settings)"
    unfolding l3 by simp_all
  have r: "sampleRate demo_buffer = 44100" "context_sampleRate demo_context = 44100"
    by (simp_all add: demo_buffer_def demo_context_def)
  have memL: "(context_sampleRate demo_context, ?L)
                \<in> {(sampleRate demo_buffer, ?O), (context_sampleRate demo_context, ?L)}"
    by (rule insertI2) (rule insertI1)
  have memO: "(sampleRate demo_buffer, ?O)
                \<in> {(sampleRate demo_buffer, ?O), (context_sampleRate demo_context, ?L)}"
    by (rule insertI1)
  note tL = t [THEN bspec, OF memL, unfolded prod.case]
  note tO = t [THEN bspec, OF memO, unfolded prod.case]
  have lenL: "length (map stage_of ?L) = 3" unfolding tL [THEN conjunct1] by (rule l3)
  have lenO: "length (map stage_of ?O) = 3" unfolding tO [THEN conjunct1] by (rule l3)
  have iL: "0 < (1::nat) \<and> Suc 1 < length ?L" using lenL by simp
  have iO: "0 < (1::nat) \<and> Suc 1 < length ?O" using lenO by simp
  have L: "map (\<lambda>s. (stage_type s, stage_frequency s, stage_gain s, stage_Q s)) (map stage_of ?L)
       = [(Lowshelf, 60, - 1, 1), (Peaking, 1000, 2, 1), (Highshelf, 8000, 3, 1)]"
  proof (rule three_stage_shape [OF lenL])
    show "stage_type (hd (map stage_of ?L)) = Lowshelf"
      by (rule tL [THEN conjunct2, THEN conjunct2, THEN conjunct1, THEN mp, OF one])
    show "stage_type (last (map stage_of ?L)) = Highshelf"
      by (rule tL [THEN conjunct2, THEN conjunct2, THEN conjunct2, THEN conjunct1, THEN mp, OF two])
    show "stage_type (map stage_of ?L ! 1) = Peaking"
      by (rule tL [THEN conjunct2, THEN conjunct2, THEN conjunct2, THEN conjunct2, THEN conjunct2,
            THEN conjunct1, THEN spec, THEN mp, OF iL])
    show "\<forall>x \<in> set (map stage_of ?L). stage_Q x = 1"
      by (rule tL [THEN conjunct2, THEN conjunct2, THEN conjunct2, THEN conjunct2, THEN conjunct2,
            THEN conjunct2, THEN conjunct1])
    show "map (\<lambda>s. (stage_frequency s, stage_gain s)) (map stage_of ?L)
            = [(60, - 1), (1000, 2), (8000, 3)]"
      unfolding tL [THEN conjunct2, THEN conjunct2, THEN conjunct2, THEN conjunct2, THEN conjunct2,
            THEN conjunct2, THEN conjunct2, THEN conjunct1] r
      by (rule shuffled_pairs)
  qed
  have O: "map (\<lambda>s. (stage_type s, stage_frequency s, stage_gain s, stage_Q s)) (map stage_of ?O)
       = [(Lowshelf, 60, - 1, 1), (Peaking, 1000, 2, 1), (Highshelf, 8000, 3, 1)]"
  proof (rule three_stage_shape [OF lenO])
    show "stage_type (hd (map stage_of ?O)) = Lowshelf"
      by (rule tO [THEN conjunct2, THEN conjunct2, THEN conjunct1, THEN mp, OF one])
    show "stage_type (last (map stage_of ?O)) = Highshelf"
      by (rule tO [THEN conjunct2, THEN conjunct2, THEN conjunct2, THEN conjunct1, THEN mp, OF two])
    show "stage_type (map stage_of ?O ! 1) = Peaking"
      by (rule tO [THEN conjunct2, THEN conjunct2, THEN conjunct2, THEN conjunct2, THEN conjunct2,
            THEN conjunct1, THEN spec, THEN mp, OF iO])
    show "\<forall>x \<in> set (map stage_of ?O). stage_Q x = 1"
      by (rule tO [THEN conjunct2, THEN conjunct2, THEN conjunct2, THEN conjunct2, THEN conjunct2,
            THEN conjunct2, THEN conjunct1])
    show "map (\<lambda>s. (stage_frequency s, stage_gain s)) (map stage_of ?O)
            = [(60, - 1), (1000, 2), (8000, 3)]"
      unfolding tO [THEN conjunct2, THEN conjunct2, THEN conjunct2, THEN conjunct2, THEN conjunct2,
            THEN conjunct2, THEN conjunct2, THEN conjunct1] r
      by (rule shuffled_pairs)
  qed
  have range: "\<forall>b \<in> set (eq shuffled_settings).
      0 \<le> frequency b \<and> frequency b \<le> real (context_sampleRate demo_context) / 2
      \<and> - most_positive_single_float \<le> gain b \<and> gain b \<le> biquad_gain_max"
    using most_positive_single_float_pos biquad_gain_max_ge
    by (simp add: shuffled_settings_def r)
  note M = tL [THEN conjunct2, THEN conjunct2, THEN conjunct2, THEN conjunct2, THEN conjunct2,
            THEN conjunct2, THEN conjunct2, THEN conjunct2, THEN mp, OF range, THEN conjunct1]
  from fr L O M show ?thesis by (intro conjI)
qed

lemma play_wires:
  assumes "audioContext e = Some ctx" and "audioBuffer e = Some buf"
  shows "\<exists>g. wired_chain (play offset st (e, h)) = Some g
           \<and> g_midSide g = make_midSide
           \<and> filter_type (g_stereoBass g) = Lowshelf
           \<and> param_value (filter_gain (g_stereoBass g))
               = limited (- most_positive_single_float) biquad_gain_max (stereoBass st)
           \<and> param_value (gain_param (g_msSideGain g))
               = limited (- most_positive_single_float) most_positive_single_float (1 + stereoWidth st)"
proof -
  let ?ctx = "if context_state ctx = Suspended then ctx \<lparr> context_state := Running \<rparr> else ctx"
  let ?e0 = "e \<lparr> audioContext := Some ?ctx \<rparr>"
  let ?E = "fst (setupGraph st (?e0, h))"
  let ?src = "createBufferSource \<lparr> source_buffer := Some buf \<rparr>"
  let ?e2 = "?E \<lparr> sourceNode := Some ?src \<rparr>"
  have c0: "audioContext ?e0 = Some ?ctx" and b0: "audioBuffer ?e0 = Some buf"
    using assms by simp_all
  note n = setupGraph_nodes [OF c0 b0, of st h]
  obtain g where g: "live_graph ?e2 ?src = Some g" and ms: "g_midSide g = make_midSide"
    and sb: "g_stereoBass g = (make_stereoBassNode (context_sampleRate ?ctx) st)
           \<lparr> filter_gain := ramp_to (stereoBass st) (currentTime ?ctx)
                (filter_gain (make_stereoBassNode (context_sampleRate ?ctx) st)) \<rparr>"
    and mg: "g_msSideGain g = (make_msSideGain st)
           \<lparr> gain_param := ramp_to (1.0 + stereoWidth st) (currentTime ?ctx) (gain_param (make_msSideGain st)) \<rparr>"
    using live_graph_Some [of ?e2 _ _ ?src] n by fastforce
  have p: "play offset st (e, h) =
      Inr (?e2 \<lparr> startTime := currentTime ?ctx - offset, pausedAt := offset,
                 sourceNode := Some (?src \<lparr> source_started := Some (0, offset) \<rparr>),
                 isPlaying := True \<rparr>,
           snd (setupGraph st (?e0, h)),
           Some (g \<lparr> g_source := ?src \<lparr> source_started := Some (0, offset) \<rparr> \<rparr>))"
    using assms g by (simp add: play_def Let_def case_prod_beta)
  show ?thesis
    unfolding p
    by (simp add: wired_chain_def ms sb mg param_value_ramp_to make_stereoBassNode_def
        make_msSideGain_def set_value_def createBiquadFilter_def createGain_def param_def
        unbounded_param_def)
qed

lemma gain_values:
  "\<bar>v\<bar> \<le> 2 \<Longrightarrow> param_value (gain_param (gain_of v)) = v"
  "param_value (gain_param createGain) = 1"
  by (simp_all add: gain_of_def createGain_def set_value_def param_def unbounded_param_def
      limited_unbounded)

lemma mid_side_matrix:
  assumes ms: "g_midSide g = make_midSide"
  shows "mid_signal g l r = (\<lambda>i. 0.5 * (l i + r i))"
    and "side_signal g l r = (\<lambda>i. 0.5 * (l i - r i))"
  by (rule ext, simp add: mid_signal_def side_signal_def ms make_midSide_def through_gain_def
        summed_def gain_values algebra_simps)+

lemma mid_side_neutral:
  assumes ms: "g_midSide g = make_midSide"
    and ty: "filter_type (g_stereoBass g) = Lowshelf"
    and sb: "param_value (filter_gain (g_stereoBass g)) = 0"
    and w: "param_value (gain_param (g_msSideGain g)) = 1"
    and host: "\<And>n x. filter_type n = Lowshelf \<Longrightarrow> param_value (filter_gain n) = 0 \<Longrightarrow> biquad n x = x"
  shows "mid_side_section biquad g (l, r) = (l, r)"
proof -
  have f: "biquad (g_stereoBass g) (side_signal g l r) = side_signal g l r"
    by (rule host [OF ty sb])
  have "summed (through_gain (outL_Mid (g_midSide g)) (mid_signal g l r))
          (through_gain (outL_Side (g_midSide g))
             (through_gain (g_msSideGain g) (side_signal g l r))) = l"
    unfolding mid_side_matrix [OF ms]
    by (rule ext)
       (simp add: ms make_midSide_def through_gain_def summed_def gain_values w
          add_divide_distrib diff_divide_distrib)
  moreover have "summed (through_gain (outR_Mid (g_midSide g)) (mid_signal g l r))
          (through_gain (outR_Side (g_midSide g))
             (through_gain (g_msSideGain g) (side_signal g l r))) = r"
    unfolding mid_side_matrix [OF ms]
    by (rule ext)
       (simp add: ms make_midSide_def through_gain_def summed_def gain_values w
          add_divide_distrib diff_divide_distrib)
  ultimately show ?thesis
    by (simp add: mid_side_section_def Let_def f)
qed

lemma offline_mid_side_nodes:
  "g_midSide (offline_graph st source impulse) = make_midSide"
  "filter_type (g_stereoBass (offline_graph st source impulse)) = Lowshelf"
  "param_value (filter_gain (g_stereoBass (offline_graph st source impulse)))
     = limited (- most_positive_single_float) biquad_gain_max (stereoBass st)"
  "param_value (gain_param (g_msSideGain (offline_graph st source impulse)))
     = limited (- most_positive_single_float) most_positive_single_float (1 + stereoWidth st)"
  by (simp_all add: offline_graph_def make_stereoBassNode_def make_msSideGain_def set_value_def
      createBiquadFilter_def createGain_def param_def unbounded_param_def)

text \<open>
  Claim C7. With \<open>stereoWidth = 0\<close> and \<open>stereoBass = 0\<close>, and a host whose low-shelf filter
  at 0 dB passes its input unchanged, the mid/side section of the offline chain and of every
  chain \<open>play\<close> wires forms \<open>mid = 0.5 (L + R)\<close> and \<open>side = 0.5 (L - R)\<close> and returns the
  stereo pair it was given: \<open>L_out = L\<close> and \<open>R_out = R\<close>. (Over the reals the equality is
  exact.)
\<close>

theorem mid_side_identity:
  assumes "stereoWidth st = 0" and "stereoBass st = 0"
    and "\<And>n x. filter_type n = Lowshelf \<Longrightarrow> param_value (filter_gain n) = 0 \<Longrightarrow> biquad n x = x"
  shows "mid_signal (offline_graph st source impulse) l r = (\<lambda>i. 0.5 * (l i + r i))
    \<and> side_signal (offline_graph st source impulse) l r = (\<lambda>i. 0.5 * (l i - r i))
    \<and> mid_side_section biquad (offline_graph st source impulse) (l, r) = (l, r)
    \<and> (\<forall>g. wired_chain (play offset st (e, h)) = Some g \<longrightarrow>
          mid_signal g l r = (\<lambda>i. 0.5 * (l i + r i))
          \<and> side_signal g l r = (\<lambda>i. 0.5 * (l i - r i))
          \<and> mid_side_section biquad g (l, r) = (l, r))"
proof (intro conjI allI impI)
  note o = offline_mid_side_nodes [of st source impulse]
  show "mid_signal (offline_graph st source impulse) l r = (\<lambda>i. 0.5 * (l i + r i))"
    and "side_signal (offline_graph st source impulse) l r = (\<lambda>i. 0.5 * (l i - r i))"
    by (rule mid_side_matrix [OF o(1)])+
  show "mid_side_section biquad (offline_graph st source impulse) (l, r) = (l, r)"
    using o assms(1,2)
    by (intro mid_side_neutral assms(3)) (simp_all add: limited_gain_zero limited_unbounded)
next
  fix g
  assume w: "wired_chain (play offset st (e, h)) = Some g"
  have live: "g_midSide g = make_midSide \<and> filter_type (g_stereoBass g) = Lowshelf
           \<and> param_value (filter_gain (g_stereoBass g))
               = limited (- most_positive_single_float) biquad_gain_max (stereoBass st)
           \<and> param_value (gain_param (g_msSideGain g))
               = limited (- most_positive_single_float) most_positive_single_float (1 + stereoWidth st)"
  proof (cases "audioContext e")
    case None
    with w show ?thesis by (simp add: play_def wired_chain_def)
  next
    case (Some ctx)
    show ?thesis
    proof (cases "audioBuffer e")
      case None
      with w Some show ?thesis by (simp add: play_def wired_chain_def)
    next
      case (Some buf)
      from play_wires [OF \<open>audioContext e = Some ctx\<close> Some, of offset st h] w
      show ?thesis by auto
    qed
  qed
  show "mid_signal g l r = (\<lambda>i. 0.5 * (l i + r i))"
    and "side_signal g l r = (\<lambda>i. 0.5 * (l i - r i))"
    using live by (intro mid_side_matrix, simp)+
  show "mid_side_section biquad g (l, r) = (l, r)"
    using live assms(1,2)
    by (intro mid_side_neutral assms(3)) (simp_all add: limited_gain_zero limited_unbounded)
qed

theorem mid_side_identity_witness:
  "mid_side_section flat_biquad (offline_graph DEFAULT_SETTINGS demo_buffer demo_buffer)
      (\<lambda>i. real i, \<lambda>i. 1) = (\<lambda>i. real i, \<lambda>i. 1)
   \<and> (case wired_chain (play 0 DEFAULT_SETTINGS (demo_engine, demo_host)) of
        None \<Rightarrow> False
      | Some g \<Rightarrow> mid_side_section flat_biquad g (\<lambda>i. real i, \<lambda>i. 1) = (\<lambda>i. real i, \<lambda>i. 1))"
proof -
  have w: "stereoWidth DEFAULT_SETTINGS = 0" and b: "stereoBass DEFAULT_SETTINGS = 0"
    by (simp_all add: DEFAULT_SETTINGS_def)
  have host: "\<And>n x. filter_type n = Lowshelf \<Longrightarrow> param_value (filter_gain n) = 0 \<Longrightarrow> flat_biquad n x = x"
    by (simp add: flat_biquad_def)
  note t = mid_side_identity [OF w b host, where source = demo_buffer and impulse = demo_buffer
      and l = "\<lambda>i. real i" and r = "\<lambda>i. 1" and offset = 0 and e = demo_engine and h = demo_host]
  from play_wires [OF demo_engine_loaded, of 0 DEFAULT_SETTINGS demo_host]
  obtain g where g: "wired_chain (play 0 DEFAULT_SETTINGS (demo_engine, demo_host)) = Some g"
    by blast
  from t g show ?thesis by simp
qed






lemma offline_graph_impulse:
  "convolver_buffer (g_reverb (offline_graph st buf impulse)) = Some impulse"
  by (simp add: offline_graph_def createConvolver_def)

lemma offline_graph_same_impulse:
  "offline_graph st buf impulse = offline_graph st buf impulse' \<Longrightarrow> impulse = impulse'"
  by (metis offline_graph_impulse option.inject)

lemma rendered_request:
  assumes "audioBuffer e = Some buf"
  shows "rendered (render_request st (e, h)) =
           Inr (\<lparr> offline_channels = 2, offline_length = buffer_length buf,
                   offline_sampleRate = sampleRate buf \<rparr>,
                offline_graph st buf
                     (snd (fst (synthesize_impulse
                        (Offline \<lparr> offline_channels = 2, offline_length = buffer_length buf,
                                   offline_sampleRate = sampleRate buf \<rparr>)
                        3 (decay (reverb st)) False h))))"
  by (simp add: render_request_result [OF assms] rendered_def)



lemma second_request_state:
  assumes "audioBuffer e = Some buf"
  shows "second_request st (e, h) =
           render_request st (e, snd (synthesize_impulse
                        (Offline \<lparr> offline_channels = 2, offline_length = buffer_length buf,
                                   offline_sampleRate = sampleRate buf \<rparr>)
                        3 (decay (reverb st)) False h))"
    and "second_render startRendering st (e, h) =
           renderOffline startRendering st (e, snd (synthesize_impulse
                        (Offline \<lparr> offline_channels = 2, offline_length = buffer_length buf,
                                   offline_sampleRate = sampleRate buf \<rparr>)
                        3 (decay (reverb st)) False h))"
  by (simp_all add: second_request_def second_render_def render_request_result [OF assms]
      renderOffline_result [OF assms])

lemma demo_rate:
  "base_sampleRate (Offline \<lparr> offline_channels = 2, offline_length = buffer_length demo_buffer,
                    offline_sampleRate = sampleRate demo_buffer \<rparr>) = 44100"
  by (simp add: base_sampleRate_def demo_buffer_def)


lemma demo_requests_differ:
  "rendered (render_request reverb_settings (demo_engine, demo_host))
     \<noteq> rendered (second_request reverb_settings (demo_engine, demo_host))"
  "map_option (\<lambda>impulse. channelData impulse 0 0)
        (request_impulse (rendered (render_request reverb_settings (demo_engine, demo_host))))
       = Some 0"
  "map_option (\<lambda>impulse. channelData impulse 0 0)
        (request_impulse (rendered (second_request reverb_settings (demo_engine, demo_host))))
       = Some (2 / 264602 - 1)"
proof -
  let ?octx = "\<lparr> offline_channels = 2, offline_length = buffer_length demo_buffer,
                    offline_sampleRate = sampleRate demo_buffer \<rparr>"
  let ?ctx = "Offline ?octx"
  let ?h1 = "snd (synthesize_impulse ?ctx 3 2 False demo_host)"
  let ?imp1 = "snd (fst (synthesize_impulse ?ctx 3 2 False demo_host))"
  let ?imp2 = "snd (fst (synthesize_impulse ?ctx 3 2 False ?h1))"
  have dec: "decay (reverb reverb_settings) = 2"
    by (simp add: reverb_settings_def)
  have r1: "rendered (render_request reverb_settings (demo_engine, demo_host))
              = Inr (?octx, offline_graph reverb_settings demo_buffer ?imp1)"
    by (simp add: rendered_request [OF demo_engine_loaded(2)] dec)
  have r2: "rendered (second_request reverb_settings (demo_engine, demo_host))
              = Inr (?octx, offline_graph reverb_settings demo_buffer ?imp2)"
    by (simp add: second_request_state [OF demo_engine_loaded(2)]
        rendered_request [OF demo_engine_loaded(2)] dec)
  have i1: "channelData ?imp1 0 0 = 0"
    unfolding synthesize_impulse_left demo_rate
    by (simp add: demo_host_def Math_pow_def)
  have pos: "random_pos ?h1 = 264600"
    unfolding synthesize_impulse_host demo_rate by (simp add: demo_host_def)
  have str: "random_stream ?h1 = (\<lambda>i. 1 / (real i + 2))"
    unfolding synthesize_impulse_host by (simp add: demo_host_def)
  have i2: "channelData ?imp2 0 0 = 2 / 264602 - 1"
    unfolding synthesize_impulse_left demo_rate pos str
    by (simp add: Math_pow_def)
  have "channelData ?imp1 0 0 \<noteq> channelData ?imp2 0 0"
    unfolding i1 i2 by simp
  then have "?imp1 \<noteq> ?imp2" by auto
  then have ne: "offline_graph reverb_settings demo_buffer ?imp1
                   \<noteq> offline_graph reverb_settings demo_buffer ?imp2"
    using offline_graph_same_impulse by blast
  show "rendered (render_request reverb_settings (demo_engine, demo_host))
     \<noteq> rendered (second_request reverb_settings (demo_engine, demo_host))"
    unfolding r1 r2 using ne by simp
  show "map_option (\<lambda>impulse. channelData impulse 0 0)
        (request_impulse (rendered (render_request reverb_settings (demo_engine, demo_host))))
       = Some 0"
    unfolding r1 by (simp add: request_impulse_def offline_graph_impulse i1)
  show "map_option (\<lambda>impulse. channelData impulse 0 0)
        (request_impulse (rendered (second_request reverb_settings (demo_engine, demo_host))))
       = Some (2 / 264602 - 1)"
    unfolding r2 by (simp add: request_impulse_def offline_graph_impulse i2)
qed


text \<open>
  Hence equal outputs of two successive renders are not a consequence of the code: they hold
  for a renderer only if it does not tell the two impulse responses apart.
\<close>

lemma renderOffline_outputs_depend_on_renderer:
  "\<not> (\<forall>startRendering.
         rendered (renderOffline startRendering reverb_settings (demo_engine, demo_host))
           = rendered (second_render startRendering reverb_settings (demo_engine, demo_host)))"
proof
  assume all: "\<forall>startRendering.
         rendered (renderOffline startRendering reverb_settings (demo_engine, demo_host))
           = rendered (second_render startRendering reverb_settings (demo_engine, demo_host))"
  let ?octx = "\<lparr> offline_channels = 2, offline_length = buffer_length demo_buffer,
                    offline_sampleRate = sampleRate demo_buffer \<rparr>"
  let ?ctx = "Offline ?octx"
  let ?h1 = "snd (synthesize_impulse ?ctx 3 (decay (reverb reverb_settings)) False demo_host)"
  let ?imp1 = "snd (fst (synthesize_impulse ?ctx 3 (decay (reverb reverb_settings)) False demo_host))"
  let ?imp2 = "snd (fst (synthesize_impulse ?ctx 3 (decay (reverb reverb_settings)) False ?h1))"
  let ?R = "\<lambda>(c :: OfflineAudioContext) g.
              case convolver_buffer (g_reverb g) of None \<Rightarrow> demo_buffer | Some impulse \<Rightarrow> impulse"
  from all have "rendered (renderOffline ?R reverb_settings (demo_engine, demo_host))
           = rendered (second_render ?R reverb_settings (demo_engine, demo_host))"
    by (rule spec)
  then have "?imp1 = ?imp2"
    unfolding second_request_state [OF demo_engine_loaded(2)]
      renderOffline_result [OF demo_engine_loaded(2)]
    by (simp add: rendered_def offline_graph_impulse)
  then have "rendered (render_request reverb_settings (demo_engine, demo_host))
     = rendered (second_request reverb_settings (demo_engine, demo_host))"
    unfolding second_request_state [OF demo_engine_loaded(2)]
      rendered_request [OF demo_engine_loaded(2)] by simp
  with demo_requests_differ(1) show False by blast
qed

end
